theory Spec2Isabelle
  imports Main
begin

section \<open>Python values used by the program\<close>

text \<open>
  A Python \<open>str\<close> is modelled as a \<^typ>\<open>string\<close> holding its UTF-8 encoding: the
  source's literals are Chinese text, and a \<^typ>\<open>char\<close> is one byte. Dictionary keys
  (\<open>round_0\<close>, \<open>final_content\<close>) are ASCII. Where the program counts characters
  (indexing a \<open>str\<close>, stripping white space) the model counts code points, through
  \<open>codepoints\<close>.
\<close>

subsection \<open>Exceptions\<close>

text \<open>
  \<open>GenerationError cause\<close> stands for whatever exception \<open>chat_model.invoke\<close> raises,
  \<open>cause\<close> being all the client reported. \<open>GrError msg\<close> is \<open>gr.Error(msg)\<close>,
  \<open>GraphRecursionError\<close> is the exception of the graph library for a run that is out of
  steps; the other constructors are the Python exceptions of the same name.
\<close>

datatype exn =
    GenerationError string
  | IndexError
  | TypeError
  | KeyError string
  | ValueError string
  | FileNotFoundError string
  | GrError string
  | GraphRecursionError

subsection \<open>Rendering an integer in an f-string\<close>

fun str_nat :: "nat \<Rightarrow> string" where
  "str_nat n =
     (if n < 10 then [''0123456789'' ! n]
      else str_nat (n div 10) @ [''0123456789'' ! (n mod 10)])"

declare str_nat.simps [simp del]

definition str_int :: "int \<Rightarrow> string" where
  "str_int i = (if i < 0 then CHR ''-'' # str_nat (nat (- i)) else str_nat (nat i))"

subsection \<open>Code points, indexing and \<open>strip\<close>\<close>

definition is_continuation :: "char \<Rightarrow> bool" where
  "is_continuation c = (128 \<le> (of_char c :: nat) \<and> (of_char c :: nat) < 192)"

function codepoints :: "string \<Rightarrow> string list" where
  "codepoints [] = []"
| "codepoints (c # cs) =
     (c # takeWhile is_continuation cs) # codepoints (dropWhile is_continuation cs)"
  by pat_completeness auto
termination
  by (relation "measure length") (auto simp: length_dropWhile_le less_Suc_eq_le)

text \<open>
  \<open>xs[i]\<close> on a list: an index from 0 to \<open>len(xs) - 1\<close> reads from the front, an index
  from \<open>-len(xs)\<close> to \<open>-1\<close> reads from the back, any other index raises.
\<close>

definition list_getitem :: "'a list \<Rightarrow> int \<Rightarrow> exn + 'a" where
  "list_getitem xs i =
     (if 0 \<le> i \<and> i < int (length xs) then Inr (xs ! nat i)
      else if i < 0 \<and> - i \<le> int (length xs) then Inr (xs ! nat (int (length xs) + i))
      else Inl IndexError)"

text \<open>\<open>s[i]\<close> on a \<open>str\<close>: the same, over the characters of \<open>s\<close>.\<close>

definition str_getitem :: "string \<Rightarrow> int \<Rightarrow> exn + string" where
  "str_getitem s i = list_getitem (codepoints s) i"

text \<open>\<open>s[k]\<close> on a \<open>str\<close> with a \<open>str\<close> subscript: string indices must be integers.\<close>

definition str_getitem_key :: "string \<Rightarrow> string \<Rightarrow> exn + string" where
  "str_getitem_key s k = Inl TypeError"

text \<open>\<open>d[k]\<close> on a dict.\<close>

definition dict_getitem :: "(string \<rightharpoonup> 'v) \<Rightarrow> string \<Rightarrow> exn + 'v" where
  "dict_getitem d k = (case d k of None \<Rightarrow> Inl (KeyError k) | Some v \<Rightarrow> Inr v)"

text \<open>
  The code points \<open>str.strip()\<close> removes: U+0009 to U+000D, U+001C to U+0020, U+0085,
  U+00A0, U+1680, U+2000 to U+200A, U+2028, U+2029, U+202F, U+205F and U+3000.
\<close>

definition py_whitespace :: "string list" where
  "py_whitespace =
     [[CHR 0x09], [CHR 0x0A], [CHR 0x0B], [CHR 0x0C], [CHR 0x0D],
      [CHR 0x1C], [CHR 0x1D], [CHR 0x1E], [CHR 0x1F], [CHR 0x20],
      [CHR 0xC2, CHR 0x85], [CHR 0xC2, CHR 0xA0], [CHR 0xE1, CHR 0x9A, CHR 0x80],
      [CHR 0xE2, CHR 0x80, CHR 0x80], [CHR 0xE2, CHR 0x80, CHR 0x81],
      [CHR 0xE2, CHR 0x80, CHR 0x82], [CHR 0xE2, CHR 0x80, CHR 0x83],
      [CHR 0xE2, CHR 0x80, CHR 0x84], [CHR 0xE2, CHR 0x80, CHR 0x85],
      [CHR 0xE2, CHR 0x80, CHR 0x86], [CHR 0xE2, CHR 0x80, CHR 0x87],
      [CHR 0xE2, CHR 0x80, CHR 0x88], [CHR 0xE2, CHR 0x80, CHR 0x89],
      [CHR 0xE2, CHR 0x80, CHR 0x8A], [CHR 0xE2, CHR 0x80, CHR 0xA8],
      [CHR 0xE2, CHR 0x80, CHR 0xA9], [CHR 0xE2, CHR 0x80, CHR 0xAF],
      [CHR 0xE2, CHR 0x81, CHR 0x9F], [CHR 0xE3, CHR 0x80, CHR 0x80]]"

definition is_space :: "string \<Rightarrow> bool" where
  "is_space cp = (cp \<in> set py_whitespace)"

definition py_strip :: "string \<Rightarrow> string" where
  "py_strip s = concat (rev (dropWhile is_space (rev (dropWhile is_space (codepoints s)))))"

section \<open>The generation client\<close>

text \<open>
  \<open>SystemMessage(content=c)\<close>, \<open>HumanMessage(content=c)\<close> and \<open>AIMessage(content=c)\<close> of
  the message library.
\<close>

datatype message = SystemMessage string | HumanMessage string | AIMessage string

text \<open>
  \<open>self.chat_model\<close> is an external service: given its own state (the provider, its
  sampling) and a message list it answers \<open>Inr text\<close> or raises (\<open>Inl cause\<close>), and moves
  to a new state. A deterministic stub is a client that ignores its state.

  The \<open>world\<close> carries the client's state and a record of every invocation made so far,
  with its outcome, in order; the program never reads the record, it is there to count
  and inspect the calls.
\<close>

type_synonym 'c chat_model = "'c \<Rightarrow> message list \<Rightarrow> (string + string) \<times> 'c"

record 'c world =
  client :: 'c
  calls :: "(message list \<times> (string + string)) list"

definition invoke :: "'c chat_model \<Rightarrow> message list \<Rightarrow> 'c world \<Rightarrow> (exn + string) \<times> 'c world" where
  "invoke chat_model msgs w =
     (case chat_model (client w) msgs of
        (r, c') \<Rightarrow>
          (case r of Inl cause \<Rightarrow> Inl (GenerationError cause) | Inr response \<Rightarrow> Inr response,
           \<lparr>client = c', calls = calls w @ [(msgs, r)]\<rparr>))"

section \<open>The critique instruction\<close>

text \<open>
  \<open>_get_reflection_prompt\<close> is the same text in \<open>reflection_python.py\<close> and in
  \<open>reflection_engine.py\<close>: an f-string whose only hole is \<open>{round_num + 1}\<close>. Its lines,
  in the order of the source, read: "This is optimisation round" (\<open>prompt_head\<close>, before the
  number), "please optimise the content along these directions:" (\<open>prompt_intro\<close>, after
  it), "1. depth of content: add expert views, supporting data and research findings"
  (\<open>axis_depth\<close>), "2. rich examples: add related cases and real application scenarios"
  (\<open>axis_examples\<close>), "3. structure: improve the organisation so that the logic is clearer"
  (\<open>axis_structure\<close>), "4. expression: improve the language so that the content is more
  vivid" (\<open>axis_expression\<close>), a line of eight blanks, and "please optimise the content
  along the directions above, keeping the core topic unchanged" (\<open>keep_topic\<close>).
\<close>

definition prompt_head :: string where
  "prompt_head =
     [CHR 0xE8, CHR 0xBF, CHR 0x99, CHR 0xE6, CHR 0x98, CHR 0xAF,
      CHR 0xE7, CHR 0xAC, CHR 0xAC] @
     '' ''"

definition prompt_intro :: string where
  "prompt_intro =
     '' '' @
     [CHR 0xE8, CHR 0xBD, CHR 0xAE, CHR 0xE4, CHR 0xBC, CHR 0x98,
      CHR 0xE5, CHR 0x8C, CHR 0x96, CHR 0xEF, CHR 0xBC, CHR 0x8C,
      CHR 0xE8, CHR 0xAF, CHR 0xB7, CHR 0xE5, CHR 0x9F, CHR 0xBA,
      CHR 0xE4, CHR 0xBA, CHR 0x8E, CHR 0xE4, CHR 0xBB, CHR 0xA5,
      CHR 0xE4, CHR 0xB8, CHR 0x8B, CHR 0xE6, CHR 0x96, CHR 0xB9,
      CHR 0xE5, CHR 0x90, CHR 0x91, CHR 0xE4, CHR 0xBC, CHR 0x98,
      CHR 0xE5, CHR 0x8C, CHR 0x96, CHR 0xE5, CHR 0x86, CHR 0x85,
      CHR 0xE5, CHR 0xAE, CHR 0xB9, CHR 0xEF, CHR 0xBC, CHR 0x9A]"

definition axis_depth :: string where
  "axis_depth =
     ''        1. '' @
     [CHR 0xE5, CHR 0x86, CHR 0x85, CHR 0xE5, CHR 0xAE, CHR 0xB9,
      CHR 0xE6, CHR 0xB7, CHR 0xB1, CHR 0xE5, CHR 0xBA, CHR 0xA6,
      CHR 0xEF, CHR 0xBC, CHR 0x9A, CHR 0xE8, CHR 0xA1, CHR 0xA5,
      CHR 0xE5, CHR 0x85, CHR 0x85, CHR 0xE4, CHR 0xB8, CHR 0x93,
      CHR 0xE4, CHR 0xB8, CHR 0x9A, CHR 0xE8, CHR 0xA7, CHR 0x82,
      CHR 0xE7, CHR 0x82, CHR 0xB9, CHR 0xE3, CHR 0x80, CHR 0x81,
      CHR 0xE6, CHR 0x95, CHR 0xB0, CHR 0xE6, CHR 0x8D, CHR 0xAE,
      CHR 0xE6, CHR 0x94, CHR 0xAF, CHR 0xE6, CHR 0x8C, CHR 0x81,
      CHR 0xE5, CHR 0x92, CHR 0x8C, CHR 0xE7, CHR 0xA0, CHR 0x94,
      CHR 0xE7, CHR 0xA9, CHR 0xB6, CHR 0xE5, CHR 0x8F, CHR 0x91,
      CHR 0xE7, CHR 0x8E, CHR 0xB0]"

definition axis_examples :: string where
  "axis_examples =
     ''        2. '' @
     [CHR 0xE6, CHR 0xA1, CHR 0x88, CHR 0xE4, CHR 0xBE, CHR 0x8B,
      CHR 0xE4, CHR 0xB8, CHR 0xB0, CHR 0xE5, CHR 0xAF, CHR 0x8C,
      CHR 0xEF, CHR 0xBC, CHR 0x9A, CHR 0xE5, CHR 0xA2, CHR 0x9E,
      CHR 0xE5, CHR 0x8A, CHR 0xA0, CHR 0xE7, CHR 0x9B, CHR 0xB8,
      CHR 0xE5, CHR 0x85, CHR 0xB3, CHR 0xE6, CHR 0xA1, CHR 0x88,
      CHR 0xE4, CHR 0xBE, CHR 0x8B, CHR 0xE3, CHR 0x80, CHR 0x81,
      CHR 0xE5, CHR 0xAE, CHR 0x9E, CHR 0xE9, CHR 0x99, CHR 0x85,
      CHR 0xE5, CHR 0xBA, CHR 0x94, CHR 0xE7, CHR 0x94, CHR 0xA8,
      CHR 0xE5, CHR 0x9C, CHR 0xBA, CHR 0xE6, CHR 0x99, CHR 0xAF]"

definition axis_structure :: string where
  "axis_structure =
     ''        3. '' @
     [CHR 0xE7, CHR 0xBB, CHR 0x93, CHR 0xE6, CHR 0x9E, CHR 0x84,
      CHR 0xE4, CHR 0xBC, CHR 0x98, CHR 0xE5, CHR 0x8C, CHR 0x96,
      CHR 0xEF, CHR 0xBC, CHR 0x9A, CHR 0xE6, CHR 0x94, CHR 0xB9,
      CHR 0xE8, CHR 0xBF, CHR 0x9B, CHR 0xE5, CHR 0x86, CHR 0x85,
      CHR 0xE5, CHR 0xAE, CHR 0xB9, CHR 0xE7, CHR 0xBB, CHR 0x84,
      CHR 0xE7, CHR 0xBB, CHR 0x87, CHR 0xEF, CHR 0xBC, CHR 0x8C,
      CHR 0xE4, CHR 0xBD, CHR 0xBF, CHR 0xE9, CHR 0x80, CHR 0xBB,
      CHR 0xE8, CHR 0xBE, CHR 0x91, CHR 0xE6, CHR 0x9B, CHR 0xB4,
      CHR 0xE6, CHR 0xB8, CHR 0x85, CHR 0xE6, CHR 0x99, CHR 0xB0]"

definition axis_expression :: string where
  "axis_expression =
     ''        4. '' @
     [CHR 0xE8, CHR 0xA1, CHR 0xA8, CHR 0xE8, CHR 0xBE, CHR 0xBE,
      CHR 0xE6, CHR 0x8F, CHR 0x90, CHR 0xE5, CHR 0x8D, CHR 0x87,
      CHR 0xEF, CHR 0xBC, CHR 0x9A, CHR 0xE4, CHR 0xBC, CHR 0x98,
      CHR 0xE5, CHR 0x8C, CHR 0x96, CHR 0xE8, CHR 0xAF, CHR 0xAD,
      CHR 0xE8, CHR 0xA8, CHR 0x80, CHR 0xE8, CHR 0xA1, CHR 0xA8,
      CHR 0xE8, CHR 0xBE, CHR 0xBE, CHR 0xEF, CHR 0xBC, CHR 0x8C,
      CHR 0xE4, CHR 0xBD, CHR 0xBF, CHR 0xE5, CHR 0x86, CHR 0x85,
      CHR 0xE5, CHR 0xAE, CHR 0xB9, CHR 0xE6, CHR 0x9B, CHR 0xB4,
      CHR 0xE7, CHR 0x94, CHR 0x9F, CHR 0xE5, CHR 0x8A, CHR 0xA8]"

definition keep_topic :: string where
  "keep_topic =
     ''        '' @
     [CHR 0xE8, CHR 0xAF, CHR 0xB7, CHR 0xE5, CHR 0x9F, CHR 0xBA,
      CHR 0xE4, CHR 0xBA, CHR 0x8E, CHR 0xE4, CHR 0xB8, CHR 0x8A,
      CHR 0xE8, CHR 0xBF, CHR 0xB0, CHR 0xE6, CHR 0x96, CHR 0xB9,
      CHR 0xE5, CHR 0x90, CHR 0x91, CHR 0xE5, CHR 0xAF, CHR 0xB9,
      CHR 0xE5, CHR 0x86, CHR 0x85, CHR 0xE5, CHR 0xAE, CHR 0xB9,
      CHR 0xE8, CHR 0xBF, CHR 0x9B, CHR 0xE8, CHR 0xA1, CHR 0x8C,
      CHR 0xE4, CHR 0xBC, CHR 0x98, CHR 0xE5, CHR 0x8C, CHR 0x96,
      CHR 0xEF, CHR 0xBC, CHR 0x8C, CHR 0xE4, CHR 0xBF, CHR 0x9D,
      CHR 0xE6, CHR 0x8C, CHR 0x81, CHR 0xE6, CHR 0xA0, CHR 0xB8,
      CHR 0xE5, CHR 0xBF, CHR 0x83, CHR 0xE4, CHR 0xB8, CHR 0xBB,
      CHR 0xE9, CHR 0xA2, CHR 0x98, CHR 0xE4, CHR 0xB8, CHR 0x8D,
      CHR 0xE5, CHR 0x8F, CHR 0x98, CHR 0xE3, CHR 0x80, CHR 0x82]"

definition get_reflection_prompt :: "int \<Rightarrow> string" where
  "get_reflection_prompt round_num =
     prompt_head @ str_int (round_num + 1) @ prompt_intro @ [CHR 0x0A] @
     axis_depth @ [CHR 0x0A] @
     axis_examples @ [CHR 0x0A] @
     axis_structure @ [CHR 0x0A] @
     axis_expression @ [CHR 0x0A] @
     ''        '' @ [CHR 0x0A] @
     keep_topic"

section \<open>The sequential formulation (\<open>reflection_python.py\<close>)\<close>

text \<open>The engine object: \<open>max_rounds\<close> is set at construction, 3 when not given.\<close>

record ReflectionEngine =
  max_rounds :: int

definition ReflectionEngine_init :: "int option \<Rightarrow> ReflectionEngine" where
  "ReflectionEngine_init max_rounds_arg =
     \<lparr>max_rounds = (case max_rounds_arg of None \<Rightarrow> 3 | Some n \<Rightarrow> n)\<rparr>"

type_synonym history = "string \<rightharpoonup> string"

text \<open>
  The body of \<open>for round_num in range(1, self.max_rounds)\<close>, over the rounds still to
  run, with the loop's variables \<open>optimization_history\<close> and \<open>current_content\<close>. An
  exception of the client leaves the loop at once.
\<close>

fun rp_rounds ::
  "'c chat_model \<Rightarrow> string \<Rightarrow> int list \<Rightarrow> history \<Rightarrow> string \<Rightarrow> 'c world
     \<Rightarrow> (exn + history) \<times> 'c world" where
  "rp_rounds chat_model system_prompt [] optimization_history current_content w =
     (Inr optimization_history, w)"
| "rp_rounds chat_model system_prompt (round_num # rest) optimization_history current_content w =
     (let messages =
            [SystemMessage system_prompt,
             HumanMessage current_content,
             SystemMessage (get_reflection_prompt round_num)]
      in case invoke chat_model messages w of
           (Inl e, w') \<Rightarrow> (Inl e, w')
         | (Inr response, w') \<Rightarrow>
             rp_rounds chat_model system_prompt rest
               (optimization_history
                  (''round_'' @ str_int round_num \<mapsto> response,
                   ''final_content'' \<mapsto> response))
               response w')"

text \<open>
  \<open>optimize_content\<close> of \<open>reflection_python.py\<close>. Its \<open>except Exception\<close> logs and
  re-raises with a bare \<open>raise\<close>: the exception leaves unchanged.
\<close>

definition rp_optimize_content ::
  "'c chat_model \<Rightarrow> ReflectionEngine \<Rightarrow> string \<Rightarrow> string \<Rightarrow> 'c world
     \<Rightarrow> (exn + history) \<times> 'c world" where
  "rp_optimize_content chat_model self initial_content system_prompt w =
     rp_rounds chat_model system_prompt [1..max_rounds self - 1]
       [''round_0'' \<mapsto> initial_content, ''final_content'' \<mapsto> initial_content]
       initial_content w"

section \<open>The graph formulation (\<open>reflection_engine.py\<close>)\<close>

text \<open>A dict \<open>{"role": r, "content": c}\<close> of the state's transcript.\<close>

record chat_msg =
  role :: string
  content :: string

record ReflectionState =
  messages :: "chat_msg list"
  current_round :: int
  optimization_history :: history
  should_continue :: bool

text \<open>
  \<open>_optimize_content\<close>, the node \<open>optimize\<close>: one round. It reads the system prompt at
  \<open>state["messages"][0]\<close> and the current content at \<open>state["messages"][-1]\<close>, invokes
  the client, and on success appends the answer, writes \<open>round_{current_round}\<close> and
  \<open>final_content\<close>, and advances \<open>current_round\<close>. Its \<open>except Exception\<close> logs and
  re-raises with a bare \<open>raise\<close>.
\<close>

definition re_optimize_content_node ::
  "'c chat_model \<Rightarrow> ReflectionState \<Rightarrow> 'c world \<Rightarrow> (exn + ReflectionState) \<times> 'c world" where
  "re_optimize_content_node chat_model state w =
     (let current_round' = current_round state in
      (case list_getitem (messages state) 0 of
         Inl e \<Rightarrow> (Inl e, w)
       | Inr first_msg \<Rightarrow>
           (case list_getitem (messages state) (- 1) of
              Inl e \<Rightarrow> (Inl e, w)
            | Inr last_msg \<Rightarrow>
                (case invoke chat_model
                        [SystemMessage (content first_msg),
                         HumanMessage (content last_msg),
                         SystemMessage (get_reflection_prompt current_round')] w of
                   (Inl e, w') \<Rightarrow> (Inl e, w')
                 | (Inr response, w') \<Rightarrow>
                     (Inr (state
                        \<lparr>messages :=
                           messages state @ [\<lparr>role = ''assistant'', content = response\<rparr>],
                         optimization_history :=
                           (optimization_history state)
                             (''round_'' @ str_int current_round' \<mapsto> response,
                              ''final_content'' \<mapsto> response),
                         current_round := current_round state + 1\<rparr>),
                      w')))))"

text \<open>\<open>_should_continue\<close>, the predicate of the conditional edge.\<close>

definition re_should_continue :: "ReflectionEngine \<Rightarrow> ReflectionState \<Rightarrow> bool" where
  "re_should_continue self state = (current_round state < max_rounds self)"

text \<open>The node \<open>end\<close>: \<open>lambda x: x\<close>.\<close>

definition end_node :: "ReflectionState \<Rightarrow> ReflectionState" where
  "end_node x = x"

text \<open>
  \<open>workflow.invoke(initial_state)\<close> is given no configuration, so the graph library runs
  the workflow under its default recursion limit of 25 steps. Taking the input in is one
  step and every run of a node is one step, which leaves 24 runs of a node.
\<close>

definition recursion_limit :: nat where
  "recursion_limit = 25"

text \<open>
  The workflow that \<open>_create_workflow\<close> builds and compiles, run by \<open>workflow.invoke\<close> with
  \<open>steps\<close> runs of a node left: the entry point is \<open>optimize\<close>; after \<open>optimize\<close> the
  conditional edge evaluates \<open>_should_continue\<close> on the node's result and goes to
  \<open>optimize\<close> again on \<open>True\<close>, to \<open>end\<close> on \<open>False\<close>; \<open>end\<close> has no outgoing edge, so the run
  stops there with its state. When a node is due and no step is left, the library raises
  \<open>GraphRecursionError\<close>. The graph library is not part of the repository: the runner is
  the reading of this graph that the specification gives (a conditional self-loop on
  \<open>optimize\<close>, else the terminal no-op node), under the library's step limit.
\<close>

fun re_workflow ::
  "'c chat_model \<Rightarrow> ReflectionEngine \<Rightarrow> nat \<Rightarrow> ReflectionState \<Rightarrow> 'c world
     \<Rightarrow> (exn + ReflectionState) \<times> 'c world" where
  "re_workflow chat_model self 0 state w = (Inl GraphRecursionError, w)"
| "re_workflow chat_model self (Suc steps) state w =
     (case re_optimize_content_node chat_model state w of
        (Inl e, w') \<Rightarrow> (Inl e, w')
      | (Inr state', w') \<Rightarrow>
          if re_should_continue self state'
          then re_workflow chat_model self steps state' w'
          else (if steps = 0 then (Inl GraphRecursionError, w')
                else (Inr (end_node state'), w')))"

text \<open>
  \<open>optimize_content\<close> of \<open>reflection_engine.py\<close>: the initial state, the workflow, and
  the history of the final state. Its \<open>except Exception\<close> logs and re-raises with a bare
  \<open>raise\<close>. (A note that the graph library may add to an exception it passes on is not
  modelled.)
\<close>

definition re_optimize_content ::
  "'c chat_model \<Rightarrow> ReflectionEngine \<Rightarrow> string \<Rightarrow> string \<Rightarrow> 'c world
     \<Rightarrow> (exn + history) \<times> 'c world" where
  "re_optimize_content chat_model self initial_content system_prompt w =
     (let initial_state =
            \<lparr>messages =
               [\<lparr>role = ''system'', content = system_prompt\<rparr>,
                \<lparr>role = ''user'', content = initial_content\<rparr>],
             current_round = 0,
             optimization_history =
               [''round_0'' \<mapsto> initial_content, ''final_content'' \<mapsto> initial_content],
             should_continue = True\<rparr>
      in case re_workflow chat_model self (recursion_limit - 1) initial_state w of
           (Inl e, w') \<Rightarrow> (Inl e, w')
         | (Inr final_state, w') \<Rightarrow> (Inr (optimization_history final_state), w'))"

section \<open>The chat orchestrator (\<open>chatbot.py\<close>)\<close>

record ChatBot =
  prompt_file :: string
  session_id :: string
  prompt :: string
  reflection_engine :: ReflectionEngine

text \<open>
  \<open>load_prompt\<close>: the stripped text of the prompt file, or \<open>FileNotFoundError\<close> with the
  message "prompt file <name> not found!". \<open>files\<close> is the file system, from path to the
  decoded text.
\<close>

definition load_prompt :: "(string \<rightharpoonup> string) \<Rightarrow> string \<Rightarrow> exn + string" where
  "load_prompt files prompt_file' =
     (case files prompt_file' of
        None \<Rightarrow>
          Inl (FileNotFoundError
            ([CHR 0xE6, CHR 0x89, CHR 0xBE, CHR 0xE4, CHR 0xB8, CHR 0x8D,
              CHR 0xE5, CHR 0x88, CHR 0xB0, CHR 0xE6, CHR 0x8F, CHR 0x90,
              CHR 0xE7, CHR 0xA4, CHR 0xBA, CHR 0xE6, CHR 0x96, CHR 0x87,
              CHR 0xE4, CHR 0xBB, CHR 0xB6] @ '' '' @ prompt_file' @ ''!''))
      | Some data \<Rightarrow> Inr (py_strip data))"

text \<open>
  \<open>ChatBot.__init__\<close>, with \<open>None\<close> for an argument that is not supplied. \<open>environ\<close> is
  \<open>os.environ\<close>; the constructor also sets \<open>OPENAI_API_BASE\<close> there, which nothing in the
  model reads. A missing or empty \<open>OPENAI_API_KEY\<close> raises \<open>ValueError\<close> ("please set the
  OPENAI_API_KEY environment variable"). The engine is the one of \<open>reflection_engine.py\<close>,
  built with no argument.

  \<open>create_chatbot\<close> builds a prompt template from the system prompt and wraps it with the
  model and the session history; \<open>chat_with_history\<close> uses none of these objects, but
  building the template fails with \<open>ValueError\<close> on a prompt that the template library
  cannot parse (an unbalanced brace, say). That library is not part of the repository:
  \<open>template_error\<close> is its verdict on a prompt, the message of the \<open>ValueError\<close> or
  \<open>None\<close>.
\<close>

definition create_chatbot :: "(string \<Rightarrow> string option) \<Rightarrow> string \<Rightarrow> exn + unit" where
  "create_chatbot template_error prompt' =
     (case template_error prompt' of None \<Rightarrow> Inr () | Some msg \<Rightarrow> Inl (ValueError msg))"

definition ChatBot_init ::
  "(string \<Rightarrow> string option) \<Rightarrow> (string \<rightharpoonup> string) \<Rightarrow> (string \<rightharpoonup> string)
     \<Rightarrow> string option \<Rightarrow> string option \<Rightarrow> exn + ChatBot" where
  "ChatBot_init template_error environ files prompt_file_arg session_id_arg =
     (let prompt_file' = (case prompt_file_arg of None \<Rightarrow> ''./prompts/chatbot.txt'' | Some p \<Rightarrow> p);
          session_id' =
            (case session_id_arg of
               None \<Rightarrow> ''default_session_id''
             | Some s \<Rightarrow> if s = [] then ''default_session_id'' else s);
          api_key = (case environ ''OPENAI_API_KEY'' of None \<Rightarrow> [] | Some k \<Rightarrow> k)
      in if api_key = []
         then Inl (ValueError
           ([CHR 0xE8, CHR 0xAF, CHR 0xB7, CHR 0xE8, CHR 0xAE, CHR 0xBE,
             CHR 0xE7, CHR 0xBD, CHR 0xAE] @
            '' OPENAI_API_KEY '' @
            [CHR 0xE7, CHR 0x8E, CHR 0xAF, CHR 0xE5, CHR 0xA2, CHR 0x83,
             CHR 0xE5, CHR 0x8F, CHR 0x98, CHR 0xE9, CHR 0x87, CHR 0x8F]))
         else
           (case load_prompt files prompt_file' of
              Inl e \<Rightarrow> Inl e
            | Inr prompt' \<Rightarrow>
                (case create_chatbot template_error prompt' of
                   Inl e \<Rightarrow> Inl e
                 | Inr u \<Rightarrow>
                     Inr \<lparr>prompt_file = prompt_file',
                          session_id = session_id',
                          prompt = prompt',
                          reflection_engine = ReflectionEngine_init None\<rparr>)))"

text \<open>
  \<open>chat_with_history\<close>: the graph engine's \<open>optimize_content\<close> on the text, then
  \<open>optimization_result["final_content"]\<close>. Its \<open>except Exception as e: raise e\<close> raises
  what it caught.
\<close>

definition chat_with_history ::
  "'c chat_model \<Rightarrow> ChatBot \<Rightarrow> string \<Rightarrow> 'c world \<Rightarrow> (exn + string) \<times> 'c world" where
  "chat_with_history chat_model self text' w =
     (case re_optimize_content chat_model (reflection_engine self) text' (prompt self) w of
        (Inl e, w') \<Rightarrow> (Inl e, w')
      | (Inr optimization_result, w') \<Rightarrow>
          (case dict_getitem optimization_result ''final_content'' of
             Inl e \<Rightarrow> (Inl e, w')
           | Inr final_content \<Rightarrow> (Inr final_content, w')))"

section \<open>The text handler of the user interface (\<open>gradiobak.py\<close>)\<close>

text \<open>The message of a text box: a \<open>str\<close>, or a dict with a \<open>text\<close> entry.\<close>

datatype ui_message = MessageStr string | MessageDict "string \<rightharpoonup> string"

text \<open>
  The two \<open>except\<close> clauses of \<open>generate_contents\<close>: a \<open>gr.Error\<close> is raised again as it
  is, any other exception becomes \<open>gr.Error\<close> with the message "network problem, please
  retry:)".
\<close>

definition retry_message :: string where
  "retry_message =
     [CHR 0xE7, CHR 0xBD, CHR 0x91, CHR 0xE7, CHR 0xBB, CHR 0x9C,
      CHR 0xE9, CHR 0x97, CHR 0xAE, CHR 0xE9, CHR 0xA2, CHR 0x98,
      CHR 0xEF, CHR 0xBC, CHR 0x8C, CHR 0xE8, CHR 0xAF, CHR 0xB7,
      CHR 0xE9, CHR 0x87, CHR 0x8D, CHR 0xE8, CHR 0xAF, CHR 0x95] @
     '':)''"

fun generate_contents_except :: "exn \<Rightarrow> exn" where
  "generate_contents_except (GrError msg) = GrError msg"
| "generate_contents_except e = GrError retry_message"

text \<open>
  \<open>generate_contents\<close>; \<open>chat_agent\<close> is the module's \<open>ChatBot\<close>. An empty text raises
  \<open>gr.Error\<close> with the message "please enter some content". The reply is read as
  \<open>messages[1]["content"]\<close>, \<open>messages\<close> being what \<open>chat_with_history\<close> returned.
\<close>

definition generate_contents ::
  "'c chat_model \<Rightarrow> ChatBot \<Rightarrow> ui_message \<Rightarrow> chat_msg list \<Rightarrow> 'c world
     \<Rightarrow> (exn + chat_msg list) \<times> 'c world" where
  "generate_contents chat_model chat_agent message' history' w =
     (let text' =
            (case message' of
               MessageStr s \<Rightarrow> s
             | MessageDict d \<Rightarrow> (case d ''text'' of None \<Rightarrow> [] | Some t \<Rightarrow> t))
      in if text' = []
         then (Inl (generate_contents_except (GrError
                 [CHR 0xE8, CHR 0xAF, CHR 0xB7, CHR 0xE8, CHR 0xBE, CHR 0x93,
                  CHR 0xE5, CHR 0x85, CHR 0xA5, CHR 0xE5, CHR 0x86, CHR 0x85,
                  CHR 0xE5, CHR 0xAE, CHR 0xB9])), w)
         else
           (case chat_with_history chat_model chat_agent text' w of
              (Inl e, w') \<Rightarrow> (Inl (generate_contents_except e), w')
            | (Inr messages', w') \<Rightarrow>
                (case str_getitem messages' 1 of
                   Inl e \<Rightarrow> (Inl (generate_contents_except e), w')
                 | Inr item \<Rightarrow>
                     (case str_getitem_key item ''content'' of
                        Inl e \<Rightarrow> (Inl (generate_contents_except e), w')
                      | Inr reply \<Rightarrow>
                          (Inr [\<lparr>role = ''user'', content = text'\<rparr>,
                                \<lparr>role = ''assistant'', content = reply\<rparr>], w')))))"

section \<open>Observing a run\<close>

text \<open>
  The invocations a run added to the record: those of \<open>w'\<close>, the world after the run,
  beyond those of \<open>w\<close>, the world before it.
\<close>

definition new_calls :: "'c world \<Rightarrow> 'c world \<Rightarrow> (message list \<times> (string + string)) list" where
  "new_calls w w' = drop (length (calls w)) (calls w')"

text \<open>
  The message list the specification gives for one round: the system prompt as a system
  message, the current content as a user message, the critique instruction of the round
  as a system message.
\<close>

definition round_messages :: "string \<Rightarrow> string \<Rightarrow> int \<Rightarrow> message list" where
  "round_messages system_prompt current_content round_num =
     [SystemMessage system_prompt, HumanMessage current_content,
      SystemMessage (get_reflection_prompt round_num)]"

text \<open>
  The invocations the specification gives for a sequence of rounds, from the content before
  the first of them and the state of the client: every round sends the system prompt, the
  current content and the critique instruction of the round, the answer is the current
  content of the next round, and nothing is sent after a failure.
\<close>

fun critique_rounds ::
  "'c chat_model \<Rightarrow> string \<Rightarrow> int list \<Rightarrow> string \<Rightarrow> 'c
     \<Rightarrow> (message list \<times> (string + string)) list" where
  "critique_rounds chat_model system_prompt [] current_content c = []"
| "critique_rounds chat_model system_prompt (r # rs) current_content c =
     (case chat_model c
             [SystemMessage system_prompt, HumanMessage current_content,
              SystemMessage (get_reflection_prompt r)] of
        (Inl cause, c') \<Rightarrow>
          [([SystemMessage system_prompt, HumanMessage current_content,
             SystemMessage (get_reflection_prompt r)], Inl cause)]
      | (Inr response, c') \<Rightarrow>
          ([SystemMessage system_prompt, HumanMessage current_content,
            SystemMessage (get_reflection_prompt r)], Inr response) #
          critique_rounds chat_model system_prompt rs response c')"

text \<open>The two writes of a round: \<open>round_{r}\<close> and \<open>final_content\<close>.\<close>

definition record_round :: "history \<Rightarrow> int \<Rightarrow> string \<Rightarrow> history" where
  "record_round h r response =
     h(''round_'' @ str_int r \<mapsto> response, ''final_content'' \<mapsto> response)"

text \<open>
  All or nothing: a run that returns made only successful invocations; a run that raises
  made at least one invocation, the last one failed, the ones before it succeeded, and what
  is raised is the exception of that last invocation.
\<close>

definition run_outcome :: "exn + 'a \<Rightarrow> (string + string) list \<Rightarrow> bool" where
  "run_outcome r outs =
     (case r of
        Inr h \<Rightarrow> list_all (\<lambda>out. \<not> isl out) outs
      | Inl e \<Rightarrow>
          outs \<noteq> [] \<and> list_all (\<lambda>out. \<not> isl out) (butlast outs) \<and>
          isl (last outs) \<and> e = GenerationError (projl (last outs)))"

text \<open>A run that is out of steps: it raises where it would have gone on.\<close>

definition out_of_steps :: "(exn + 'a) \<times> 'c world \<Rightarrow> (exn + 'a) \<times> 'c world" where
  "out_of_steps x =
     (case x of (Inl e, w') \<Rightarrow> (Inl e, w') | (Inr a, w') \<Rightarrow> (Inl GraphRecursionError, w'))"

text \<open>What \<open>optimize_content\<close> of the graph formulation keeps of the workflow's result.\<close>

definition history_of ::
  "(exn + ReflectionState) \<times> 'c world \<Rightarrow> (exn + history) \<times> 'c world" where
  "history_of x =
     (case x of (Inl e, w') \<Rightarrow> (Inl e, w') | (Inr s, w') \<Rightarrow> (Inr (optimization_history s), w'))"

section \<open>Stub clients\<close>

text \<open>
  A deterministic stub: it answers the user message of a critique request with
  \<open>+refined\<close> appended, and never fails on such a request.
\<close>

definition refine_stub :: "unit chat_model" where
  "refine_stub c msgs =
     (case msgs of
        [SystemMessage sp, HumanMessage cur, SystemMessage critique] \<Rightarrow>
          (Inr (cur @ ''+refined''), c)
      | _ \<Rightarrow> (Inl ''bad request'', c))"

definition w0 :: "unit world" where
  "w0 = \<lparr>client = (), calls = []\<rparr>"

text \<open>
  A client that counts its invocations and fails on invocation number \<open>k\<close> (from 0), with
  the same cause whatever \<open>k\<close> is.
\<close>

definition failing_stub :: "nat \<Rightarrow> nat chat_model" where
  "failing_stub k n msgs = (if n = k then Inl ''quota exceeded'' else Inr ''draft'', Suc n)"

text \<open>A stand-in for the template library that accepts the prompts without a brace.\<close>

definition brace_free :: "string \<Rightarrow> string option" where
  "brace_free p =
     (if CHR 0x7B \<in> set p \<or> CHR 0x7D \<in> set p then Some ''invalid prompt template'' else None)"

section \<open>Decimal rendering is injective\<close>

lemma digit_inj: "a < 10 \<Longrightarrow> b < 10 \<Longrightarrow> ''0123456789'' ! a = ''0123456789'' ! b \<Longrightarrow> a = b"
proof -
  assume a: "a < 10" and b: "b < 10" and eq: "''0123456789'' ! a = ''0123456789'' ! b"
  have d: "distinct ''0123456789''" by simp
  have "a < length ''0123456789''" "b < length ''0123456789''" using a b by simp_all
  with d eq show "a = b" by (simp only: nth_eq_iff_index_eq)
qed

lemma str_nat_not_Nil: "str_nat n \<noteq> []"
  by (subst str_nat.simps) simp

lemma str_nat_inj: "str_nat a = str_nat b \<Longrightarrow> a = b"
proof (induction a arbitrary: b rule: str_nat.induct)
  case (1 n)
  show ?case
  proof (cases "n < 10")
    case True
    then have n: "str_nat n = [''0123456789'' ! n]" by (subst str_nat.simps) simp
    show ?thesis
    proof (cases "b < 10")
      case bs: True
      then have "str_nat b = [''0123456789'' ! b]" by (subst str_nat.simps) simp
      with n "1.prems" have "''0123456789'' ! n = ''0123456789'' ! b" by simp
      with True bs show ?thesis by (rule digit_inj)
    next
      case False
      then have "str_nat b = str_nat (b div 10) @ [''0123456789'' ! (b mod 10)]"
        by (subst str_nat.simps) simp
      with n "1.prems" have "str_nat (b div 10) = []" by simp
      with str_nat_not_Nil show ?thesis by blast
    qed
  next
    case False
    then have n: "str_nat n = str_nat (n div 10) @ [''0123456789'' ! (n mod 10)]"
      by (subst str_nat.simps) simp
    show ?thesis
    proof (cases "b < 10")
      case True
      then have "str_nat b = [''0123456789'' ! b]" by (subst str_nat.simps) simp
      with n "1.prems" have "str_nat (n div 10) = []" by simp
      with str_nat_not_Nil show ?thesis by blast
    next
      case bf: False
      then have "str_nat b = str_nat (b div 10) @ [''0123456789'' ! (b mod 10)]"
        by (subst str_nat.simps) simp
      with n "1.prems" have pre: "str_nat (n div 10) = str_nat (b div 10)"
        and dig: "''0123456789'' ! (n mod 10) = ''0123456789'' ! (b mod 10)" by simp_all
      from "1.IH" [OF False pre] have q: "n div 10 = b div 10" .
      have "n mod 10 = b mod 10" by (rule digit_inj [OF _ _ dig]) simp_all
      with q show ?thesis by (metis div_mult_mod_eq)
    qed
  qed
qed

lemma str_nat_no_minus: "hd (str_nat n) \<noteq> CHR ''-''"
proof (induction n rule: str_nat.induct)
  case (1 n)
  show ?case
  proof (cases "n < 10")
    case True
    then have n: "str_nat n = [''0123456789'' ! n]" by (subst str_nat.simps) simp
    have "''0123456789'' ! n \<in> set ''0123456789''" using True by (intro nth_mem) simp
    then have "''0123456789'' ! n \<noteq> CHR ''-''" by auto
    with n show ?thesis by simp
  next
    case False
    then have n: "str_nat n = str_nat (n div 10) @ [''0123456789'' ! (n mod 10)]"
      by (subst str_nat.simps) simp
    with "1.IH" [OF False] str_nat_not_Nil [of "n div 10"] show ?thesis by simp
  qed
qed

lemma str_int_inj: "str_int a = str_int b \<Longrightarrow> a = b"
proof -
  assume eq: "str_int a = str_int b"
  have neg: "CHR ''-'' # str_nat x \<noteq> str_nat y" for x y
    using str_nat_no_minus [of y] by (metis list.sel(1))
  show "a = b"
  proof (cases "a < 0")
    case True
    show ?thesis
    proof (cases "b < 0")
      case bt: True
      with True eq have "str_nat (nat (- a)) = str_nat (nat (- b))" by (simp add: str_int_def)
      then have "nat (- a) = nat (- b)" by (rule str_nat_inj)
      with True bt show ?thesis by simp
    next
      case False
      with True eq neg show ?thesis by (simp add: str_int_def)
    qed
  next
    case False
    show ?thesis
    proof (cases "b < 0")
      case True
      with False eq neg [of "nat (- b)" "nat a"] show ?thesis by (simp add: str_int_def)
    next
      case bf: False
      with False eq have "str_nat (nat a) = str_nat (nat b)" by (simp add: str_int_def)
      then have "nat a = nat b" by (rule str_nat_inj)
      with False bf show ?thesis by simp
    qed
  qed
qed

section \<open>The loop of the sequential formulation\<close>

lemma invoke_Inl:
  "chat_model (client w) msgs = (Inl cause, c') \<Longrightarrow>
   invoke chat_model msgs w =
     (Inl (GenerationError cause), \<lparr>client = c', calls = calls w @ [(msgs, Inl cause)]\<rparr>)"
  by (simp add: invoke_def)

lemma invoke_Inr:
  "chat_model (client w) msgs = (Inr response, c') \<Longrightarrow>
   invoke chat_model msgs w =
     (Inr response, \<lparr>client = c', calls = calls w @ [(msgs, Inr response)]\<rparr>)"
  by (simp add: invoke_def)

lemma rp_rounds_Nil: "rp_rounds chat_model sp [] h cur w = (Inr h, w)"
  by simp

lemma rp_rounds_Inl:
  "chat_model (client w) (round_messages sp cur r) = (Inl cause, c') \<Longrightarrow>
   rp_rounds chat_model sp (r # rs) h cur w =
     (Inl (GenerationError cause),
      \<lparr>client = c', calls = calls w @ [(round_messages sp cur r, Inl cause)]\<rparr>)"
  by (simp add: invoke_Inl round_messages_def Let_def)

lemma rp_rounds_Inr:
  "chat_model (client w) (round_messages sp cur r) = (Inr response, c') \<Longrightarrow>
   rp_rounds chat_model sp (r # rs) h cur w =
     rp_rounds chat_model sp rs
       (record_round h r response) response
       \<lparr>client = c', calls = calls w @ [(round_messages sp cur r, Inr response)]\<rparr>"
  by (simp add: invoke_Inr round_messages_def Let_def record_round_def)

declare rp_rounds.simps(2) [simp del]

lemma rp_rounds_prefix:
  "\<exists>new. calls (snd (rp_rounds chat_model sp rs h cur w)) = calls w @ new"
proof (induction rs arbitrary: h cur w)
  case Nil
  show ?case by simp
next
  case (Cons r rs)
  obtain out c' where g: "chat_model (client w) (round_messages sp cur r) = (out, c')"
    by (cases "chat_model (client w) (round_messages sp cur r)")
  show ?case
  proof (cases out)
    case (Inl cause)
    with g show ?thesis by (simp add: rp_rounds_Inl)
  next
    case (Inr response)
    let ?h = "record_round h r response"
    let ?w1 = "\<lparr>client = c', calls = calls w @ [(round_messages sp cur r, Inr response)]\<rparr>"
    from Inr g have eq: "rp_rounds chat_model sp (r # rs) h cur w =
        rp_rounds chat_model sp rs ?h response ?w1"
      by (simp only: rp_rounds_Inr)
    from Cons.IH [of ?h response ?w1]
    obtain new where new: "calls (snd (rp_rounds chat_model sp rs ?h response ?w1)) = calls ?w1 @ new"
      by blast
    have "calls ?w1 = calls w @ [(round_messages sp cur r, Inr response)]" by simp
    with new have "calls (snd (rp_rounds chat_model sp rs ?h response ?w1)) =
        calls w @ ((round_messages sp cur r, Inr response) # new)"
      by (simp only: append_assoc append.simps)
    then show ?thesis unfolding eq by (rule exI)
  qed
qed

lemma new_calls_same [simp]: "new_calls w w = []"
  by (simp add: new_calls_def)

lemma new_calls_append [simp]:
  "new_calls w \<lparr>client = c', calls = calls w @ xs\<rparr> = xs"
  by (simp add: new_calls_def)

lemma rp_rounds_new_calls:
  "calls (snd (rp_rounds chat_model sp rs h cur w)) =
     calls w @ new_calls w (snd (rp_rounds chat_model sp rs h cur w))"
  using rp_rounds_prefix [of chat_model sp rs h cur w] by (auto simp: new_calls_def)

lemma rp_rounds_new_calls_Cons:
  "calls w1 = calls w @ [x] \<Longrightarrow>
   new_calls w (snd (rp_rounds chat_model sp rs h cur w1)) =
     x # new_calls w1 (snd (rp_rounds chat_model sp rs h cur w1))"
  using rp_rounds_prefix [of chat_model sp rs h cur w1] by (auto simp: new_calls_def)

lemma rp_rounds_induct [case_names Nil Raise Return]:
  assumes nil: "\<And>h cur w. P [] h cur w"
    and raise: "\<And>r rs h cur w cause c'.
      chat_model (client w) (round_messages sp cur r) = (Inl cause, c') \<Longrightarrow> P (r # rs) h cur w"
    and return: "\<And>r rs h cur w response c'.
      chat_model (client w) (round_messages sp cur r) = (Inr response, c') \<Longrightarrow>
      P rs (record_round h r response) response
        \<lparr>client = c', calls = calls w @ [(round_messages sp cur r, Inr response)]\<rparr> \<Longrightarrow>
      P (r # rs) h cur w"
  shows "P rs h cur (w :: 'c world)"
proof (induction rs arbitrary: h cur w)
  case Nil
  show ?case by (rule nil)
next
  case (Cons r rs h cur w)
  obtain out c' where g: "chat_model (client w) (round_messages sp cur r) = (out, c')"
    by (cases "chat_model (client w) (round_messages sp cur r)")
  show ?case
  proof (cases out)
    case (Inl cause)
    with g have "chat_model (client w) (round_messages sp cur r) = (Inl cause, c')" by simp
    then show ?thesis by (rule raise)
  next
    case (Inr response)
    with g have "chat_model (client w) (round_messages sp cur r) = (Inr response, c')" by simp
    then show ?thesis by (rule return) (rule Cons.IH)
  qed
qed

lemma rp_rounds_length_le:
  "length (new_calls w (snd (rp_rounds chat_model sp rs h cur w))) \<le> length rs"
proof (induction rs h cur w rule: rp_rounds_induct [where chat_model = chat_model and sp = sp])
  case (Nil h cur w)
  show ?case by (simp add: rp_rounds_Nil)
next
  case (Raise r rs h cur w cause c')
  then show ?case by (simp add: rp_rounds_Inl)
next
  case (Return r rs h cur w response c')
  then show ?case
    by (simp only: rp_rounds_Inr)
      (subst rp_rounds_new_calls_Cons [where x = "(round_messages sp cur r, Inr response)"], simp_all)
qed

lemma rp_rounds_length:
  "fst (rp_rounds chat_model sp rs h cur w) = Inr h' \<Longrightarrow>
   length (new_calls w (snd (rp_rounds chat_model sp rs h cur w))) = length rs"
proof (induction rs h cur w rule: rp_rounds_induct [where chat_model = chat_model and sp = sp])
  case (Nil h cur w)
  show ?case by (simp add: rp_rounds_Nil)
next
  case (Raise r rs h cur w cause c')
  then show ?case by (simp add: rp_rounds_Inl)
next
  case (Return r rs h cur w response c')
  then show ?case
    by (simp only: rp_rounds_Inr)
      (subst rp_rounds_new_calls_Cons [where x = "(round_messages sp cur r, Inr response)"], simp_all)
qed

lemma rp_rounds_trace:
  "new_calls w (snd (rp_rounds chat_model sp rs h cur w)) =
     critique_rounds chat_model sp rs cur (client w)"
proof (induction rs h cur w rule: rp_rounds_induct [where chat_model = chat_model and sp = sp])
  case (Nil h cur w)
  show ?case by (simp add: rp_rounds_Nil)
next
  case (Raise r rs h cur w cause c')
  then show ?case by (simp add: rp_rounds_Inl round_messages_def)
next
  case (Return r rs h cur w response c')
  let ?w1 = "\<lparr>client = c', calls = calls w @ [(round_messages sp cur r, Inr response)]\<rparr>"
  let ?R = "rp_rounds chat_model sp rs (record_round h r response) response ?w1"
  have nc: "new_calls w (snd ?R) = (round_messages sp cur r, Inr response) # new_calls ?w1 (snd ?R)"
    by (rule rp_rounds_new_calls_Cons) simp
  from Return(2) have "new_calls ?w1 (snd ?R) = critique_rounds chat_model sp rs response c'"
    by simp
  with Return(1) show ?case
    by (simp only: rp_rounds_Inr nc) (simp add: round_messages_def)
qed

lemma rp_rounds_first_call:
  "new_calls w (snd (rp_rounds chat_model sp rs h cur w)) \<noteq> [] \<Longrightarrow>
   fst (hd (new_calls w (snd (rp_rounds chat_model sp rs h cur w)))) =
     round_messages sp cur (hd rs)"
proof (cases rs)
  case Nil
  assume "new_calls w (snd (rp_rounds chat_model sp rs h cur w)) \<noteq> []"
  with Nil show ?thesis by (simp add: rp_rounds_Nil)
next
  case (Cons r rest)
  then show ?thesis
    by (simp only: rp_rounds_trace)
      (simp add: round_messages_def split: prod.splits sum.splits)
qed

lemma rp_rounds_outcome:
  "run_outcome (fst (rp_rounds chat_model sp rs h cur w))
     (map snd (new_calls w (snd (rp_rounds chat_model sp rs h cur w))))"
proof (induction rs h cur w rule: rp_rounds_induct [where chat_model = chat_model and sp = sp])
  case (Nil h cur w)
  show ?case by (simp add: rp_rounds_Nil run_outcome_def)
next
  case (Raise r rs h cur w cause c')
  then show ?case by (simp add: rp_rounds_Inl run_outcome_def)
next
  case (Return r rs h cur w response c')
  let ?R = "rp_rounds chat_model sp rs
      (record_round h r response) response
      \<lparr>client = c', calls = calls w @ [(round_messages sp cur r, Inr response)]\<rparr>"
  let ?w1 = "\<lparr>client = c', calls = calls w @ [(round_messages sp cur r, Inr response)]\<rparr>"
  have nc: "new_calls w (snd ?R) = (round_messages sp cur r, Inr response) # new_calls ?w1 (snd ?R)"
    by (rule rp_rounds_new_calls_Cons) simp
  from Return(2) have "run_outcome (fst ?R) (Inr response # map snd (new_calls ?w1 (snd ?R)))"
    by (cases "fst ?R") (auto simp: run_outcome_def)
  with Return(1) show ?case
    by (simp only: rp_rounds_Inr nc list.map snd_conv)
qed

lemma record_round_final: "record_round h r response ''final_content'' = Some response"
  by (simp add: record_round_def)

lemma record_round_other:
  "k \<noteq> ''final_content'' \<Longrightarrow> k \<noteq> ''round_'' @ str_int r \<Longrightarrow> record_round h r response k = h k"
  by (simp add: record_round_def)

lemma dom_record_round:
  "dom (record_round h r response) = insert ''final_content'' (insert (''round_'' @ str_int r) (dom h))"
  by (auto simp: record_round_def)

lemma rp_rounds_dom:
  "fst (rp_rounds chat_model sp rs h cur w) = Inr h' \<Longrightarrow>
   dom h' = dom h \<union> (\<lambda>r. ''round_'' @ str_int r) ` set rs \<union>
     (if rs = [] then {} else {''final_content''})"
proof (induction rs h cur w rule: rp_rounds_induct [where chat_model = chat_model and sp = sp])
  case (Nil h cur w)
  then show ?case by (simp add: rp_rounds_Nil)
next
  case (Raise r rs h cur w cause c')
  then show ?case by (simp add: rp_rounds_Inl)
next
  case (Return r rs h cur w response c')
  from Return(1,3) have "fst (rp_rounds chat_model sp rs (record_round h r response) response
      \<lparr>client = c', calls = calls w @ [(round_messages sp cur r, Inr response)]\<rparr>) = Inr h'"
    by (simp only: rp_rounds_Inr)
  from Return(2) [OF this] show ?case
    by (auto simp: dom_record_round)
qed

lemma rp_rounds_other:
  "fst (rp_rounds chat_model sp rs h cur w) = Inr h' \<Longrightarrow>
   k \<noteq> ''final_content'' \<Longrightarrow> k \<notin> (\<lambda>r. ''round_'' @ str_int r) ` set rs \<Longrightarrow> h' k = h k"
proof (induction rs h cur w rule: rp_rounds_induct [where chat_model = chat_model and sp = sp])
  case (Nil h cur w)
  then show ?case by (simp add: rp_rounds_Nil)
next
  case (Raise r rs h cur w cause c')
  then show ?case by (simp add: rp_rounds_Inl)
next
  case (Return r rs h cur w response c')
  from Return(1,3) have "fst (rp_rounds chat_model sp rs (record_round h r response) response
      \<lparr>client = c', calls = calls w @ [(round_messages sp cur r, Inr response)]\<rparr>) = Inr h'"
    by (simp only: rp_rounds_Inr)
  from Return(2) [OF this] Return(4,5) have "h' k = record_round h r response k" by simp
  with Return(4,5) show ?case by (simp add: record_round_other)
qed

lemma rp_rounds_final_kept:
  "fst (rp_rounds chat_model sp rs h cur w) = Inr h' \<Longrightarrow>
   h ''final_content'' = Some cur \<Longrightarrow>
   h' ''final_content'' \<noteq> None"
proof (induction rs h cur w rule: rp_rounds_induct [where chat_model = chat_model and sp = sp])
  case (Nil h cur w)
  then show ?case by (simp add: rp_rounds_Nil)
next
  case (Raise r rs h cur w cause c')
  then show ?case by (simp add: rp_rounds_Inl)
next
  case (Return r rs h cur w response c')
  from Return(1,3) have "fst (rp_rounds chat_model sp rs (record_round h r response) response
      \<lparr>client = c', calls = calls w @ [(round_messages sp cur r, Inr response)]\<rparr>) = Inr h'"
    by (simp only: rp_rounds_Inr)
  from Return(2) [OF this record_round_final] show ?case .
qed

lemma rp_rounds_final:
  "fst (rp_rounds chat_model sp rs h cur w) = Inr h' \<Longrightarrow> rs \<noteq> [] \<Longrightarrow>
   h' ''final_content'' = h' (''round_'' @ str_int (last rs)) \<and>
   h' ''final_content'' =
     Some (projr (snd (last (new_calls w (snd (rp_rounds chat_model sp rs h cur w))))))"
proof (induction rs h cur w rule: rp_rounds_induct [where chat_model = chat_model and sp = sp])
  case (Nil h cur w)
  then show ?case by simp
next
  case (Raise r rs h cur w cause c')
  then show ?case by (simp add: rp_rounds_Inl)
next
  case (Return r rs h cur w response c')
  let ?w1 = "\<lparr>client = c', calls = calls w @ [(round_messages sp cur r, Inr response)]\<rparr>"
  let ?R = "rp_rounds chat_model sp rs (record_round h r response) response ?w1"
  from Return(1,3) have R: "fst ?R = Inr h'"
    by (simp only: rp_rounds_Inr)
  have eq: "rp_rounds chat_model sp (r # rs) h cur w = ?R"
    using Return(1) by (simp only: rp_rounds_Inr)
  have nc: "new_calls w (snd ?R) = (round_messages sp cur r, Inr response) # new_calls ?w1 (snd ?R)"
    by (rule rp_rounds_new_calls_Cons) simp
  show ?case
  proof (cases "rs = []")
    case True
    with R have h': "h' = record_round h r response" by (simp add: rp_rounds_Nil)
    from eq True have "rp_rounds chat_model sp [r] h cur w = (Inr (record_round h r response), ?w1)"
      by (simp add: rp_rounds_Nil)
    with True h' show ?thesis
      by (simp add: record_round_def)
  next
    case False
    from rp_rounds_length [OF R] False have ne: "new_calls ?w1 (snd ?R) \<noteq> []" by auto
    from Return(2) [OF R False]
    have a: "h' ''final_content'' = h' (''round_'' @ str_int (last rs))"
      and b: "h' ''final_content'' = Some (projr (snd (last (new_calls ?w1 (snd ?R)))))"
      by blast+
    from ne have l: "last (new_calls w (snd ?R)) = last (new_calls ?w1 (snd ?R))"
      by (simp only: nc last.simps if_False)
    from False have lr: "last (r # rs) = last rs" by simp
    show ?thesis
      by (simp only: eq l lr) (use a b in blast)
  qed
qed

section \<open>The graph formulation is the loop from round 0\<close>

text \<open>
  From a state whose transcript starts with the system prompt and ends with the current
  content, the workflow does what the loop of the sequential formulation does over the
  rounds \<open>current_round, current_round + 1, \<dots>, max_rounds - 1\<close>, the first of them
  unconditionally, as long as it has steps: with \<open>n\<close> steps left it runs the first \<open>n\<close>
  of these rounds, and is out of steps unless fewer than \<open>n\<close> rounds were due. So
  \<open>optimize_content\<close> of the graph formulation is the sequential loop over rounds
  \<open>0 .. max_rounds - 1\<close>, where the sequential formulation runs \<open>1 .. max_rounds - 1\<close>, and
  it is out of steps after 24 rounds when \<open>max_rounds\<close> is 24 or more.
\<close>

lemma list_getitem_first: "xs \<noteq> [] \<Longrightarrow> list_getitem xs 0 = Inr (hd xs)"
  by (cases xs) (simp_all add: list_getitem_def)

lemma list_getitem_last: "xs \<noteq> [] \<Longrightarrow> list_getitem xs (- 1) = Inr (last xs)"
  by (cases xs) (simp_all add: list_getitem_def last_conv_nth nat_diff_distrib')

lemma node_Inl:
  "messages state \<noteq> [] \<Longrightarrow>
   chat_model (client w)
     (round_messages (content (hd (messages state))) (content (last (messages state)))
        (current_round state)) = (Inl cause, c') \<Longrightarrow>
   re_optimize_content_node chat_model state w =
     (Inl (GenerationError cause),
      \<lparr>client = c',
       calls = calls w @
         [(round_messages (content (hd (messages state))) (content (last (messages state)))
             (current_round state), Inl cause)]\<rparr>)"
  by (simp add: re_optimize_content_node_def list_getitem_first list_getitem_last invoke_Inl
      round_messages_def Let_def)

lemma node_Inr:
  "messages state \<noteq> [] \<Longrightarrow>
   chat_model (client w)
     (round_messages (content (hd (messages state))) (content (last (messages state)))
        (current_round state)) = (Inr response, c') \<Longrightarrow>
   re_optimize_content_node chat_model state w =
     (Inr (state
        \<lparr>messages := messages state @ [\<lparr>role = ''assistant'', content = response\<rparr>],
         optimization_history :=
           record_round (optimization_history state) (current_round state) response,
         current_round := current_round state + 1\<rparr>),
      \<lparr>client = c',
       calls = calls w @
         [(round_messages (content (hd (messages state))) (content (last (messages state)))
             (current_round state), Inr response)]\<rparr>)"
  by (simp add: re_optimize_content_node_def list_getitem_first list_getitem_last invoke_Inr
      round_messages_def Let_def record_round_def)

lemma out_of_steps_snd [simp]: "snd (out_of_steps x) = snd x"
  by (cases x) (auto simp: out_of_steps_def split: sum.splits)

lemma out_of_steps_Inl [simp]: "out_of_steps (Inl e, w) = (Inl e, w)"
  by (simp add: out_of_steps_def)

lemma out_of_steps_Inr [simp]: "out_of_steps (Inr a, w) = (Inl GraphRecursionError, w)"
  by (simp add: out_of_steps_def)

lemma out_of_steps_not_Inr: "fst (out_of_steps x) \<noteq> Inr a"
  by (cases x) (auto simp: out_of_steps_def split: sum.splits)

lemma out_of_steps_error:
  "fst (out_of_steps x) = Inl e \<Longrightarrow> fst x = Inl e \<or> (\<exists>a. fst x = Inr a) \<and> e = GraphRecursionError"
  by (cases x) (auto simp: out_of_steps_def split: sum.splits)

lemma re_workflow_rounds:
  "messages state \<noteq> [] \<Longrightarrow>
   history_of (re_workflow chat_model self n state w) =
     (if length (current_round state # [current_round state + 1..max_rounds self - 1]) < n
      then rp_rounds chat_model (content (hd (messages state)))
             (current_round state # [current_round state + 1..max_rounds self - 1])
             (optimization_history state) (content (last (messages state))) w
      else out_of_steps
             (rp_rounds chat_model (content (hd (messages state)))
                (take n (current_round state # [current_round state + 1..max_rounds self - 1]))
                (optimization_history state) (content (last (messages state))) w))"
proof (induction n arbitrary: state w)
  case 0
  show ?case by (simp add: history_of_def rp_rounds_Nil)
next
  case (Suc n)
  let ?sp = "content (hd (messages state))"
  let ?cur = "content (last (messages state))"
  let ?r = "current_round state"
  let ?rest = "[?r + 1..max_rounds self - 1]"
  obtain out c' where g: "chat_model (client w) (round_messages ?sp ?cur ?r) = (out, c')"
    by (cases "chat_model (client w) (round_messages ?sp ?cur ?r)")
  show ?case
  proof (cases out)
    case (Inl cause)
    with g have g': "chat_model (client w) (round_messages ?sp ?cur ?r) = (Inl cause, c')" by simp
    have node: "re_optimize_content_node chat_model state w =
        (Inl (GenerationError cause),
         \<lparr>client = c', calls = calls w @ [(round_messages ?sp ?cur ?r, Inl cause)]\<rparr>)"
      by (rule node_Inl [where state = state and w = w and chat_model = chat_model, OF Suc.prems g'])
    have loop: "rp_rounds chat_model ?sp (?r # rs) (optimization_history state) ?cur w =
        (Inl (GenerationError cause),
         \<lparr>client = c', calls = calls w @ [(round_messages ?sp ?cur ?r, Inl cause)]\<rparr>)" for rs
      by (rule rp_rounds_Inl) (rule g')
    show ?thesis
      by (simp add: node loop history_of_def)
  next
    case (Inr response)
    with g have g': "chat_model (client w) (round_messages ?sp ?cur ?r) = (Inr response, c')" by simp
    let ?h1 = "record_round (optimization_history state) ?r response"
    let ?s1 = "state
        \<lparr>messages := messages state @ [\<lparr>role = ''assistant'', content = response\<rparr>],
         optimization_history := ?h1,
         current_round := ?r + 1\<rparr>"
    let ?w1 = "\<lparr>client = c', calls = calls w @ [(round_messages ?sp ?cur ?r, Inr response)]\<rparr>"
    have node: "re_optimize_content_node chat_model state w = (Inr ?s1, ?w1)"
      by (rule node_Inr [where state = state and w = w and chat_model = chat_model, OF Suc.prems g'])
    have loop: "rp_rounds chat_model ?sp (?r # rs) (optimization_history state) ?cur w =
        rp_rounds chat_model ?sp rs ?h1 response ?w1" for rs
      by (rule rp_rounds_Inr) (rule g')
    have hd1: "content (hd (messages ?s1)) = ?sp" using Suc.prems by simp
    have last1: "content (last (messages ?s1)) = response" by simp
    show ?thesis
    proof (cases "re_should_continue self ?s1")
      case True
      then have le: "?r + 1 \<le> max_rounds self - 1" by (simp add: re_should_continue_def)
      then have rest: "?rest = (?r + 1) # [?r + 1 + 1..max_rounds self - 1]"
        by (simp add: upto_rec1)
      have wf: "re_workflow chat_model self (Suc n) state w = re_workflow chat_model self n ?s1 ?w1"
        using True by (simp add: node)
      have "history_of (re_workflow chat_model self n ?s1 ?w1) =
          (if length (current_round ?s1 # [current_round ?s1 + 1..max_rounds self - 1]) < n
           then rp_rounds chat_model (content (hd (messages ?s1)))
                  (current_round ?s1 # [current_round ?s1 + 1..max_rounds self - 1])
                  (optimization_history ?s1) (content (last (messages ?s1))) ?w1
           else out_of_steps
                  (rp_rounds chat_model (content (hd (messages ?s1)))
                     (take n (current_round ?s1 # [current_round ?s1 + 1..max_rounds self - 1]))
                     (optimization_history ?s1) (content (last (messages ?s1))) ?w1))"
        by (rule Suc.IH) simp
      also have "\<dots> =
          (if length ?rest < n
           then rp_rounds chat_model ?sp ?rest ?h1 response ?w1
           else out_of_steps (rp_rounds chat_model ?sp (take n ?rest) ?h1 response ?w1))"
        by (simp only: hd1 last1 rest) simp
      finally show ?thesis
        by (simp only: wf) (simp add: loop)
    next
      case False
      then have emp: "?rest = []" by (simp add: re_should_continue_def)
      have wf: "re_workflow chat_model self (Suc n) state w =
          (if n = 0 then (Inl GraphRecursionError, ?w1) else (Inr (end_node ?s1), ?w1))"
        using False by (simp add: node)
      show ?thesis
        by (simp only: wf emp) (simp add: loop rp_rounds_Nil history_of_def end_node_def)
    qed
  qed
qed

lemma re_optimize_content_rounds:
  "re_optimize_content chat_model self initial_content system_prompt w =
     (if length (0 # [1..max_rounds self - 1]) < recursion_limit - 1
      then rp_rounds chat_model system_prompt (0 # [1..max_rounds self - 1])
             [''round_0'' \<mapsto> initial_content, ''final_content'' \<mapsto> initial_content]
             initial_content w
      else out_of_steps
             (rp_rounds chat_model system_prompt
                (take (recursion_limit - 1) (0 # [1..max_rounds self - 1]))
                [''round_0'' \<mapsto> initial_content, ''final_content'' \<mapsto> initial_content]
                initial_content w))"
proof -
  let ?s0 = "\<lparr>messages =
               [\<lparr>role = ''system'', content = system_prompt\<rparr>,
                \<lparr>role = ''user'', content = initial_content\<rparr>],
             current_round = 0,
             optimization_history =
               [''round_0'' \<mapsto> initial_content, ''final_content'' \<mapsto> initial_content],
             should_continue = True\<rparr>"
  have "re_optimize_content chat_model self initial_content system_prompt w =
      history_of (re_workflow chat_model self (recursion_limit - 1) ?s0 w)"
    by (simp add: re_optimize_content_def history_of_def Let_def)
  also have "\<dots> =
     (if length (current_round ?s0 # [current_round ?s0 + 1..max_rounds self - 1]) < recursion_limit - 1
      then rp_rounds chat_model (content (hd (messages ?s0)))
             (current_round ?s0 # [current_round ?s0 + 1..max_rounds self - 1])
             (optimization_history ?s0) (content (last (messages ?s0))) w
      else out_of_steps
             (rp_rounds chat_model (content (hd (messages ?s0)))
                (take (recursion_limit - 1) (current_round ?s0 # [current_round ?s0 + 1..max_rounds self - 1]))
                (optimization_history ?s0) (content (last (messages ?s0))) w))"
    by (rule re_workflow_rounds) simp
  finally show ?thesis by simp
qed

text \<open>
  In either case the graph formulation runs the loop over round 0 and then over some of
  the rounds \<open>1 .. max_rounds - 1\<close>.
\<close>

lemma re_optimize_content_cases:
  "\<exists>rs. set rs \<subseteq> set [1..max_rounds self - 1] \<and>
     (re_optimize_content chat_model self initial_content system_prompt w =
        rp_rounds chat_model system_prompt (0 # rs)
          [''round_0'' \<mapsto> initial_content, ''final_content'' \<mapsto> initial_content]
          initial_content w \<or>
      re_optimize_content chat_model self initial_content system_prompt w =
        out_of_steps
          (rp_rounds chat_model system_prompt (0 # rs)
             [''round_0'' \<mapsto> initial_content, ''final_content'' \<mapsto> initial_content]
             initial_content w))"
proof (cases "length (0 # [1..max_rounds self - 1]) < recursion_limit - 1")
  case True
  then have "re_optimize_content chat_model self initial_content system_prompt w =
         rp_rounds chat_model system_prompt (0 # [1..max_rounds self - 1])
           [''round_0'' \<mapsto> initial_content, ''final_content'' \<mapsto> initial_content]
           initial_content w"
    by (simp only: re_optimize_content_rounds if_True)
  then show ?thesis by blast
next
  case False
  have t: "take (recursion_limit - 1) (0 # [1..max_rounds self - 1]) =
      0 # take (recursion_limit - 2) [1..max_rounds self - 1]"
    by (simp add: recursion_limit_def)
  from False have "re_optimize_content chat_model self initial_content system_prompt w =
         out_of_steps
           (rp_rounds chat_model system_prompt
              (0 # take (recursion_limit - 2) [1..max_rounds self - 1])
              [''round_0'' \<mapsto> initial_content, ''final_content'' \<mapsto> initial_content]
              initial_content w)"
    by (simp only: re_optimize_content_rounds if_False t)
  moreover have "set (take (recursion_limit - 2) [1..max_rounds self - 1]) \<subseteq>
      set [1..max_rounds self - 1]"
    by (rule set_take_subset)
  ultimately show ?thesis by blast
qed

lemma str_int_0: "str_int 0 = ''0''"
  by (simp add: str_int_def str_nat.simps)

lemma round_0_not_later: "''round_0'' \<notin> (\<lambda>r. ''round_'' @ str_int r) ` set [1..n]"
proof
  assume "''round_0'' \<in> (\<lambda>r. ''round_'' @ str_int r) ` set [1..n]"
  then obtain r where r: "1 \<le> r" and "''round_0'' = ''round_'' @ str_int r" by auto
  then have "str_int r = str_int 0" by (simp add: str_int_0)
  then have "r = 0" by (rule str_int_inj)
  with r show False by simp
qed

lemma rp_rounds_error:
  "fst (rp_rounds chat_model sp rs h cur w) = Inl e \<Longrightarrow>
   new_calls w (snd (rp_rounds chat_model sp rs h cur w)) \<noteq> [] \<and>
   list_all (\<lambda>c. \<not> isl (snd c)) (butlast (new_calls w (snd (rp_rounds chat_model sp rs h cur w)))) \<and>
   (\<exists>cause. snd (last (new_calls w (snd (rp_rounds chat_model sp rs h cur w)))) = Inl cause \<and>
      e = GenerationError cause)"
  using rp_rounds_outcome [of chat_model sp rs h cur w]
  by (cases "last (map snd (new_calls w (snd (rp_rounds chat_model sp rs h cur w))))")
    (auto simp: run_outcome_def list_all_iff last_map map_butlast [symmetric])

lemma rp_rounds_success:
  "fst (rp_rounds chat_model sp rs h cur w) = Inr h' \<Longrightarrow>
   list_all (\<lambda>c. \<not> isl (snd c)) (new_calls w (snd (rp_rounds chat_model sp rs h cur w)))"
  using rp_rounds_outcome [of chat_model sp rs h cur w]
  by (auto simp: run_outcome_def list_all_iff)

lemma rp_rounds_failed_call:
  assumes "(msgs, Inl cause) \<in> set (new_calls w (snd (rp_rounds chat_model sp rs h cur w)))"
  shows "fst (rp_rounds chat_model sp rs h cur w) = Inl (GenerationError cause) \<and>
    last (new_calls w (snd (rp_rounds chat_model sp rs h cur w))) = (msgs, Inl cause) \<and>
    list_all (\<lambda>c. \<not> isl (snd c)) (butlast (new_calls w (snd (rp_rounds chat_model sp rs h cur w))))"
proof -
  let ?R = "rp_rounds chat_model sp rs h cur w"
  let ?new = "new_calls w (snd ?R)"
  from assms have ne: "?new \<noteq> []" by auto
  have not_ok: "\<not> list_all (\<lambda>c. \<not> isl (snd c)) ?new"
    using assms by (auto simp: list_all_iff intro!: bexI [of _ "(msgs, Inl cause)"])
  obtain e where e: "fst ?R = Inl e"
  proof (cases "fst ?R")
    case (Inl e)
    then show ?thesis by (rule that)
  next
    case (Inr h')
    then have "list_all (\<lambda>c. \<not> isl (snd c)) ?new" by (rule rp_rounds_success)
    with not_ok show ?thesis by simp
  qed
  from rp_rounds_error [OF e] obtain cause' where
    ok: "list_all (\<lambda>c. \<not> isl (snd c)) (butlast ?new)"
    and l: "snd (last ?new) = Inl cause'" and e': "e = GenerationError cause'"
    by blast
  from ne have "?new = butlast ?new @ [last ?new]" by simp
  with assms have "(msgs, Inl cause) \<in> set (butlast ?new) \<or> (msgs, Inl cause) = last ?new"
    by (metis Un_iff empty_iff insert_iff list.set(1) list.set(2) set_append)
  moreover from ok have "(msgs, Inl cause) \<notin> set (butlast ?new)"
    by (auto simp: list_all_iff)
  ultimately have last: "last ?new = (msgs, Inl cause)" by simp
  with l have "cause' = cause" by simp
  with e e' last ok show ?thesis by simp
qed

section \<open>What holds of each formulation\<close>

lemma upto_last: "i \<le> j \<Longrightarrow> last [i..j] = j"
  by (simp add: upto_rec2)

lemma round_keys_from_0:
  "1 \<le> n \<Longrightarrow>
   insert ''round_0'' ((\<lambda>r. ''round_'' @ str_int r) ` set [1..n - 1]) =
     (\<lambda>r. ''round_'' @ str_int r) ` {0..n - 1}"
proof -
  assume "1 \<le> n"
  then have "{0..n - 1} = insert 0 {1..n - 1}" by auto
  then show ?thesis by (simp add: str_int_0)
qed

text \<open>
  The sequential formulation does what the specification says of the reflection loop: a
  run that returns keeps the initial content under \<open>round_0\<close>, has made
  \<open>max_rounds - 1\<close> invocations, and for \<open>max_rounds \<ge> 1\<close> has the keys \<open>round_0\<close> to
  \<open>round_{max_rounds - 1}\<close> and \<open>final_content\<close>, the latter equal to the last round.
\<close>

lemma sequential_round_0:
  assumes "fst (rp_optimize_content chat_model self initial_content system_prompt w) = Inr h"
  shows "h ''round_0'' = Some initial_content"
proof -
  let ?h0 = "[''round_0'' \<mapsto> initial_content, ''final_content'' \<mapsto> initial_content]"
  from assms have "fst (rp_rounds chat_model system_prompt [1..max_rounds self - 1] ?h0
      initial_content w) = Inr h"
    by (simp only: rp_optimize_content_def)
  then have "h ''round_0'' = ?h0 ''round_0''"
    by (rule rp_rounds_other) (simp, rule round_0_not_later)
  then show ?thesis by simp
qed

lemma sequential_calls:
  assumes "fst (rp_optimize_content chat_model self initial_content system_prompt w) = Inr h"
  shows "length (new_calls w
      (snd (rp_optimize_content chat_model self initial_content system_prompt w))) =
    nat (max_rounds self - 1)"
proof -
  let ?h0 = "[''round_0'' \<mapsto> initial_content, ''final_content'' \<mapsto> initial_content]"
  from assms have "fst (rp_rounds chat_model system_prompt [1..max_rounds self - 1] ?h0
      initial_content w) = Inr h"
    by (simp only: rp_optimize_content_def)
  then have "length (new_calls w (snd (rp_rounds chat_model system_prompt [1..max_rounds self - 1]
      ?h0 initial_content w))) = length [1..max_rounds self - 1]"
    by (rule rp_rounds_length)
  then show ?thesis by (simp add: rp_optimize_content_def)
qed

lemma sequential_keys:
  assumes "fst (rp_optimize_content chat_model self initial_content system_prompt w) = Inr h"
    and "1 \<le> max_rounds self"
  shows "dom h =
    (\<lambda>r. ''round_'' @ str_int r) ` {0..max_rounds self - 1} \<union> {''final_content''}"
proof -
  let ?h0 = "[''round_0'' \<mapsto> initial_content, ''final_content'' \<mapsto> initial_content]"
  from assms(1) have "fst (rp_rounds chat_model system_prompt [1..max_rounds self - 1] ?h0
      initial_content w) = Inr h"
    by (simp only: rp_optimize_content_def)
  then have "dom h = dom ?h0 \<union> (\<lambda>r. ''round_'' @ str_int r) ` set [1..max_rounds self - 1] \<union>
     (if [1..max_rounds self - 1] = [] then {} else {''final_content''})"
    by (rule rp_rounds_dom)
  then have "dom h = insert ''round_0'' ((\<lambda>r. ''round_'' @ str_int r) ` set [1..max_rounds self - 1])
      \<union> {''final_content''}"
    by auto
  with round_keys_from_0 [OF assms(2)] show ?thesis by simp
qed

lemma sequential_final:
  assumes "fst (rp_optimize_content chat_model self initial_content system_prompt w) = Inr h"
    and "1 \<le> max_rounds self"
  shows "h ''final_content'' = h (''round_'' @ str_int (max_rounds self - 1))"
proof (cases "max_rounds self = 1")
  case True
  with assms(1) have "h = [''round_0'' \<mapsto> initial_content, ''final_content'' \<mapsto> initial_content]"
    by (simp add: rp_optimize_content_def)
  with True show ?thesis by (simp add: str_int_0)
next
  case False
  let ?h0 = "[''round_0'' \<mapsto> initial_content, ''final_content'' \<mapsto> initial_content]"
  from False assms(2) have ne: "[1..max_rounds self - 1] \<noteq> []" by simp
  from False assms(2) have l: "last [1..max_rounds self - 1] = max_rounds self - 1"
    by (intro upto_last) simp
  from assms(1) have "fst (rp_rounds chat_model system_prompt [1..max_rounds self - 1] ?h0
      initial_content w) = Inr h"
    by (simp only: rp_optimize_content_def)
  from rp_rounds_final [OF this ne] show ?thesis by (simp only: l)
qed

text \<open>
  The graph formulation: a run that returns was not out of steps, so it is the loop over
  rounds \<open>0 .. max_rounds - 1\<close>; it has made one invocation more than the sequential
  formulation, and for \<open>max_rounds \<ge> 1\<close> its \<open>final_content\<close> is the content of
  \<open>round_{max_rounds - 1}\<close> as well.
\<close>

lemma re_optimize_content_returns:
  assumes "fst (re_optimize_content chat_model self initial_content system_prompt w) = Inr h"
  shows "re_optimize_content chat_model self initial_content system_prompt w =
     rp_rounds chat_model system_prompt (0 # [1..max_rounds self - 1])
       [''round_0'' \<mapsto> initial_content, ''final_content'' \<mapsto> initial_content]
       initial_content w"
proof (cases "length (0 # [1..max_rounds self - 1]) < recursion_limit - 1")
  case True
  then show ?thesis by (simp only: re_optimize_content_rounds if_True)
next
  case False
  with assms have "fst (out_of_steps
      (rp_rounds chat_model system_prompt
         (take (recursion_limit - 1) (0 # [1..max_rounds self - 1]))
         [''round_0'' \<mapsto> initial_content, ''final_content'' \<mapsto> initial_content]
         initial_content w)) = Inr h"
    by (simp only: re_optimize_content_rounds if_False)
  then show ?thesis by (simp add: out_of_steps_not_Inr)
qed

lemma graph_calls:
  assumes "fst (re_optimize_content chat_model self initial_content system_prompt w) = Inr h"
  shows "length (new_calls w
      (snd (re_optimize_content chat_model self initial_content system_prompt w))) =
    1 + nat (max_rounds self - 1)"
proof -
  let ?h0 = "[''round_0'' \<mapsto> initial_content, ''final_content'' \<mapsto> initial_content]"
  note run = re_optimize_content_returns [OF assms]
  from assms have "fst (rp_rounds chat_model system_prompt (0 # [1..max_rounds self - 1]) ?h0
      initial_content w) = Inr h"
    by (simp only: run)
  then have "length (new_calls w (snd (rp_rounds chat_model system_prompt
      (0 # [1..max_rounds self - 1]) ?h0 initial_content w))) = length (0 # [1..max_rounds self - 1])"
    by (rule rp_rounds_length)
  then show ?thesis by (simp add: run)
qed

lemma graph_final:
  assumes "fst (re_optimize_content chat_model self initial_content system_prompt w) = Inr h"
    and "1 \<le> max_rounds self"
  shows "h ''final_content'' = h (''round_'' @ str_int (max_rounds self - 1))"
proof -
  let ?h0 = "[''round_0'' \<mapsto> initial_content, ''final_content'' \<mapsto> initial_content]"
  have l: "last (0 # [1..max_rounds self - 1]) = max_rounds self - 1"
  proof (cases "max_rounds self = 1")
    case True
    then show ?thesis by simp
  next
    case False
    with assms(2) have "[1..max_rounds self - 1] \<noteq> []" by simp
    moreover from False assms(2) have "last [1..max_rounds self - 1] = max_rounds self - 1"
      by (intro upto_last) simp
    ultimately show ?thesis by simp
  qed
  from assms(1) have "fst (rp_rounds chat_model system_prompt (0 # [1..max_rounds self - 1]) ?h0
      initial_content w) = Inr h"
    by (simp only: re_optimize_content_returns [OF assms(1)])
  from rp_rounds_final [OF this] show ?thesis by (simp only: l) simp
qed

text \<open>
  With \<open>max_rounds\<close> of 24 or more the graph formulation is out of steps: it returns no
  history, and when none of its invocations fails it raises \<open>GraphRecursionError\<close> after
  24 of them.
\<close>

lemma graph_out_of_steps:
  assumes "24 \<le> max_rounds self"
    and "list_all (\<lambda>c. \<not> isl (snd c))
      (new_calls w (snd (re_optimize_content chat_model self initial_content system_prompt w)))"
  shows "fst (re_optimize_content chat_model self initial_content system_prompt w) =
      Inl GraphRecursionError \<and>
    length (new_calls w
      (snd (re_optimize_content chat_model self initial_content system_prompt w))) = 24"
proof -
  let ?rs = "take (recursion_limit - 1) (0 # [1..max_rounds self - 1])"
  let ?X = "rp_rounds chat_model system_prompt ?rs
      [''round_0'' \<mapsto> initial_content, ''final_content'' \<mapsto> initial_content]
      initial_content w"
  from assms(1) have "\<not> length (0 # [1..max_rounds self - 1]) < recursion_limit - 1"
    by (simp add: recursion_limit_def)
  then have run: "re_optimize_content chat_model self initial_content system_prompt w =
      out_of_steps ?X"
    by (simp only: re_optimize_content_rounds if_False)
  from assms(1) have len: "length ?rs = 24"
    by (simp add: recursion_limit_def)
  from assms(2) have ok: "list_all (\<lambda>c. \<not> isl (snd c)) (new_calls w (snd ?X))"
    by (simp only: run out_of_steps_snd)
  obtain h where h: "fst ?X = Inr h"
  proof (cases "fst ?X")
    case (Inl e)
    from rp_rounds_error [OF this] obtain cause where
      ne: "new_calls w (snd ?X) \<noteq> []" and l: "snd (last (new_calls w (snd ?X))) = Inl cause"
      by blast
    from ne have "last (new_calls w (snd ?X)) \<in> set (new_calls w (snd ?X))"
      by (rule last_in_set)
    with ok have "\<not> isl (snd (last (new_calls w (snd ?X))))"
      by (simp add: list_all_iff)
    with l have False by simp
    then show ?thesis ..
  next
    case (Inr h)
    then show ?thesis by (rule that)
  qed
  from rp_rounds_length [OF h] len have "length (new_calls w (snd ?X)) = 24" by simp
  moreover from h have "fst (out_of_steps ?X) = Inl GraphRecursionError"
    by (cases ?X) simp
  ultimately show ?thesis by (simp only: run out_of_steps_snd)
qed

lemma rp_optimize_content_rounds:
  "rp_optimize_content chat_model self initial_content system_prompt w =
     rp_rounds chat_model system_prompt [1..max_rounds self - 1]
       [''round_0'' \<mapsto> initial_content, ''final_content'' \<mapsto> initial_content]
       initial_content w"
  by (simp add: rp_optimize_content_def)

text \<open>Either formulation is the loop over some rounds, or that loop out of steps.\<close>

lemma either_formulation_rounds:
  assumes "optimize_content = rp_optimize_content chat_model self \<or>
           optimize_content = re_optimize_content chat_model self"
  obtains (Done) rs where
    "optimize_content initial_content system_prompt w =
       rp_rounds chat_model system_prompt rs
         [''round_0'' \<mapsto> initial_content, ''final_content'' \<mapsto> initial_content]
         initial_content w"
  | (Out) rs where "rs \<noteq> []"
    "optimize_content initial_content system_prompt w =
       out_of_steps
         (rp_rounds chat_model system_prompt rs
            [''round_0'' \<mapsto> initial_content, ''final_content'' \<mapsto> initial_content]
            initial_content w)"
proof -
  from assms show ?thesis
  proof
    assume "optimize_content = rp_optimize_content chat_model self"
    then show ?thesis
      by (intro Done [of "[1..max_rounds self - 1]"]) (simp add: rp_optimize_content_rounds)
  next
    assume re: "optimize_content = re_optimize_content chat_model self"
    from re_optimize_content_cases [of self chat_model initial_content system_prompt w]
    obtain rs where
      "re_optimize_content chat_model self initial_content system_prompt w =
         rp_rounds chat_model system_prompt (0 # rs)
           [''round_0'' \<mapsto> initial_content, ''final_content'' \<mapsto> initial_content]
           initial_content w \<or>
       re_optimize_content chat_model self initial_content system_prompt w =
         out_of_steps
           (rp_rounds chat_model system_prompt (0 # rs)
              [''round_0'' \<mapsto> initial_content, ''final_content'' \<mapsto> initial_content]
              initial_content w)"
      by blast
    then show ?thesis
    proof
      assume "re_optimize_content chat_model self initial_content system_prompt w =
         rp_rounds chat_model system_prompt (0 # rs)
           [''round_0'' \<mapsto> initial_content, ''final_content'' \<mapsto> initial_content]
           initial_content w"
      with re show ?thesis by (intro Done [of "0 # rs"]) simp
    next
      assume "re_optimize_content chat_model self initial_content system_prompt w =
         out_of_steps
           (rp_rounds chat_model system_prompt (0 # rs)
              [''round_0'' \<mapsto> initial_content, ''final_content'' \<mapsto> initial_content]
              initial_content w)"
      with re show ?thesis by (intro Out [of "0 # rs"]) simp_all
    qed
  qed
qed

lemma get_reflection_prompt_inj:
  "get_reflection_prompt r = get_reflection_prompt r' \<Longrightarrow> r = r'"
proof -
  assume "get_reflection_prompt r = get_reflection_prompt r'"
  then have "str_int (r + 1) = str_int (r' + 1)"
    by (simp only: get_reflection_prompt_def same_append_eq append_same_eq)
  then have "r + 1 = r' + 1" by (rule str_int_inj)
  then show ?thesis by simp
qed

lemma re_optimize_content_final:
  "fst (re_optimize_content chat_model self initial_content system_prompt w) = Inr h \<Longrightarrow>
   h ''final_content'' \<noteq> None"
proof -
  let ?h0 = "[''round_0'' \<mapsto> initial_content, ''final_content'' \<mapsto> initial_content]"
  assume a: "fst (re_optimize_content chat_model self initial_content system_prompt w) = Inr h"
  then have run: "fst (rp_rounds chat_model system_prompt (0 # [1..max_rounds self - 1]) ?h0
      initial_content w) = Inr h"
    by (simp only: re_optimize_content_returns [OF a])
  have "?h0 ''final_content'' = Some initial_content" by simp
  with run show ?thesis by (rule rp_rounds_final_kept)
qed

lemma re_optimize_content_error:
  assumes "fst (re_optimize_content chat_model self initial_content system_prompt w) = Inl e"
  shows "(\<exists>cause. e = GenerationError cause) \<or> e = GraphRecursionError"
proof (rule either_formulation_rounds [where optimize_content = "re_optimize_content chat_model self"
      and chat_model = chat_model and self = self and initial_content = initial_content
      and system_prompt = system_prompt and w = w])
  show "re_optimize_content chat_model self = rp_optimize_content chat_model self \<or>
      re_optimize_content chat_model self = re_optimize_content chat_model self"
    by simp
next
  fix rs
  assume "re_optimize_content chat_model self initial_content system_prompt w =
       rp_rounds chat_model system_prompt rs
         [''round_0'' \<mapsto> initial_content, ''final_content'' \<mapsto> initial_content]
         initial_content w"
  with assms show ?thesis by (auto dest: rp_rounds_error)
next
  fix rs :: "int list"
  assume "re_optimize_content chat_model self initial_content system_prompt w =
       out_of_steps
         (rp_rounds chat_model system_prompt rs
            [''round_0'' \<mapsto> initial_content, ''final_content'' \<mapsto> initial_content]
            initial_content w)"
  with assms show ?thesis by (auto dest!: out_of_steps_error dest: rp_rounds_error)
qed

lemma chat_with_history_error:
  "fst (chat_with_history chat_model self text' w) = Inl e \<Longrightarrow>
   generate_contents_except e = GrError retry_message"
proof -
  assume a: "fst (chat_with_history chat_model self text' w) = Inl e"
  obtain r w' where run:
    "re_optimize_content chat_model (reflection_engine self) text' (prompt self) w = (r, w')"
    by (cases "re_optimize_content chat_model (reflection_engine self) text' (prompt self) w")
  show ?thesis
  proof (cases r)
    case (Inl e')
    with run a have "e = e'" by (simp add: chat_with_history_def)
    moreover from run Inl have "(\<exists>cause. e' = GenerationError cause) \<or> e' = GraphRecursionError"
      using re_optimize_content_error [of chat_model "reflection_engine self" text' "prompt self" w e']
      by simp
    ultimately show ?thesis by auto
  next
    case (Inr h)
    with run have "h ''final_content'' \<noteq> None"
      using re_optimize_content_final [of chat_model "reflection_engine self" text' "prompt self" w h]
      by simp
    with run Inr a show ?thesis
      by (auto simp: chat_with_history_def dict_getitem_def)
  qed
qed

text \<open>The equations that run the two formulations on a stub.\<close>

lemmas eval_simps = rp_rounds.simps(2) invoke_def refine_stub_def w0_def Let_def upto.simps
  str_int_def str_nat.simps new_calls_def recursion_limit_def

section \<open>Claims\<close>

subsection \<open>The two formulations on the specification's scenario\<close>

text \<open>
  Claim C1: for every input and every deterministic generation function, the sequential
  and the graph formulation return the same history. On the scenario of the specification
  (\<open>max_rounds = 3\<close>, a deterministic stub) they do not: the sequential run keeps the
  initial content under \<open>round_0\<close> and refines twice, the graph run starts with the node
  \<open>optimize\<close> at \<open>current_round = 0\<close>, so it writes the first answer under \<open>round_0\<close> and
  refines three times.
\<close>

theorem formulations_differ:
  "(\<exists>h. fst (rp_optimize_content refine_stub \<lparr>max_rounds = 3\<rparr> ''AI in education''
           ''You are a slide-content writer.'' w0) = Inr h \<and>
        h ''round_0'' = Some ''AI in education'' \<and>
        h ''final_content'' = Some ''AI in education+refined+refined'') \<and>
   (\<exists>h. fst (re_optimize_content refine_stub \<lparr>max_rounds = 3\<rparr> ''AI in education''
           ''You are a slide-content writer.'' w0) = Inr h \<and>
        h ''round_0'' = Some ''AI in education+refined'' \<and>
        h ''final_content'' = Some ''AI in education+refined+refined+refined'') \<and>
   fst (rp_optimize_content refine_stub \<lparr>max_rounds = 3\<rparr> ''AI in education''
          ''You are a slide-content writer.'' w0) \<noteq>
   fst (re_optimize_content refine_stub \<lparr>max_rounds = 3\<rparr> ''AI in education''
          ''You are a slide-content writer.'' w0)"
proof -
  have seq: "\<exists>h. fst (rp_optimize_content refine_stub \<lparr>max_rounds = 3\<rparr> ''AI in education''
           ''You are a slide-content writer.'' w0) = Inr h \<and>
        h ''round_0'' = Some ''AI in education'' \<and>
        h ''final_content'' = Some ''AI in education+refined+refined''"
    by (simp add: rp_optimize_content_def eval_simps)
  have graph: "\<exists>h. fst (re_optimize_content refine_stub \<lparr>max_rounds = 3\<rparr> ''AI in education''
           ''You are a slide-content writer.'' w0) = Inr h \<and>
        h ''round_0'' = Some ''AI in education+refined'' \<and>
        h ''final_content'' = Some ''AI in education+refined+refined+refined''"
    by (simp add: re_optimize_content_rounds eval_simps)
  from seq graph have "fst (rp_optimize_content refine_stub \<lparr>max_rounds = 3\<rparr> ''AI in education''
          ''You are a slide-content writer.'' w0) \<noteq>
      fst (re_optimize_content refine_stub \<lparr>max_rounds = 3\<rparr> ''AI in education''
          ''You are a slide-content writer.'' w0)"
    by auto
  with seq graph show ?thesis by blast
qed

text \<open>
  Claim C2: with \<open>max_rounds = N \<ge> 1\<close> the client is invoked exactly \<open>N - 1\<close> times, never
  with \<open>N = 1\<close>. The graph formulation invokes it once with \<open>max_rounds = 1\<close> and three
  times with \<open>max_rounds = 3\<close>; the sequential formulation, on the same inputs, not at all
  and twice.
\<close>

theorem graph_invokes_client_with_one_round:
  "length (new_calls w0 (snd (re_optimize_content refine_stub \<lparr>max_rounds = 1\<rparr> ''AI in education''
      ''You are a slide-content writer.'' w0))) = 1 \<and>
   length (new_calls w0 (snd (re_optimize_content refine_stub \<lparr>max_rounds = 3\<rparr> ''AI in education''
      ''You are a slide-content writer.'' w0))) = 3 \<and>
   length (new_calls w0 (snd (rp_optimize_content refine_stub \<lparr>max_rounds = 1\<rparr> ''AI in education''
      ''You are a slide-content writer.'' w0))) = 0 \<and>
   length (new_calls w0 (snd (rp_optimize_content refine_stub \<lparr>max_rounds = 3\<rparr> ''AI in education''
      ''You are a slide-content writer.'' w0))) = 2"
  by (simp add: re_optimize_content_rounds rp_optimize_content_def eval_simps)

text \<open>
  Claim C3: in either formulation \<open>round_0\<close> of a returned history is the initial content,
  and no generation call produces it. In the graph formulation \<open>round_0\<close> is the answer of
  the first generation call.
\<close>

theorem graph_overwrites_round_0:
  "\<exists>h. fst (re_optimize_content refine_stub \<lparr>max_rounds = 2\<rparr> ''AI in education''
          ''You are a slide-content writer.'' w0) = Inr h \<and>
       h ''round_0'' = Some ''AI in education+refined'' \<and>
       h ''round_0'' \<noteq> Some ''AI in education''"
  by (simp add: re_optimize_content_rounds eval_simps)

text \<open>
  Claim C5: \<open>final_content\<close> is the content of the highest round, and with
  \<open>max_rounds = 1\<close> it is the initial content. In the graph formulation with
  \<open>max_rounds = 1\<close> it is the content of \<open>round_0\<close>, but that is the answer of a
  generation call, not the initial content.
\<close>

theorem graph_final_content_with_one_round:
  "\<exists>h. fst (re_optimize_content refine_stub \<lparr>max_rounds = 1\<rparr> ''AI in education''
          ''You are a slide-content writer.'' w0) = Inr h \<and>
       h ''final_content'' = Some ''AI in education+refined'' \<and>
       h ''final_content'' = h ''round_0'' \<and>
       h ''final_content'' \<noteq> Some ''AI in education''"
  by (simp add: re_optimize_content_rounds eval_simps)

lemma round_0_not_among:
  assumes "set rs \<subseteq> set [1..n]"
  shows "''round_0'' \<notin> (\<lambda>r. ''round_'' @ str_int r) ` set rs"
  using assms round_0_not_later [of n] by blast

lemma rounds_from_0:
  assumes "set rs \<subseteq> set [1..n]"
  shows "calls (snd (rp_rounds chat_model system_prompt (0 # rs)
        [''round_0'' \<mapsto> initial_content, ''final_content'' \<mapsto> initial_content]
        initial_content w)) =
      calls w @ new_calls w (snd (rp_rounds chat_model system_prompt (0 # rs)
        [''round_0'' \<mapsto> initial_content, ''final_content'' \<mapsto> initial_content]
        initial_content w)) \<and>
    new_calls w (snd (rp_rounds chat_model system_prompt (0 # rs)
        [''round_0'' \<mapsto> initial_content, ''final_content'' \<mapsto> initial_content]
        initial_content w)) \<noteq> [] \<and>
    fst (hd (new_calls w (snd (rp_rounds chat_model system_prompt (0 # rs)
        [''round_0'' \<mapsto> initial_content, ''final_content'' \<mapsto> initial_content]
        initial_content w)))) =
      [SystemMessage system_prompt, HumanMessage initial_content,
       SystemMessage (get_reflection_prompt 0)] \<and>
    (\<forall>h. fst (rp_rounds chat_model system_prompt (0 # rs)
        [''round_0'' \<mapsto> initial_content, ''final_content'' \<mapsto> initial_content]
        initial_content w) = Inr h \<longrightarrow>
      (\<exists>response.
         snd (hd (new_calls w (snd (rp_rounds chat_model system_prompt (0 # rs)
           [''round_0'' \<mapsto> initial_content, ''final_content'' \<mapsto> initial_content]
           initial_content w)))) = Inr response \<and>
         h ''round_0'' = Some response))"
proof -
  let ?h0 = "[''round_0'' \<mapsto> initial_content, ''final_content'' \<mapsto> initial_content]"
  let ?msgs = "round_messages system_prompt initial_content 0"
  obtain out c' where g: "chat_model (client w) ?msgs = (out, c')"
    by (cases "chat_model (client w) ?msgs")
  have prefix: "calls (snd (rp_rounds chat_model system_prompt (0 # rs) ?h0 initial_content w)) =
      calls w @ new_calls w (snd (rp_rounds chat_model system_prompt (0 # rs) ?h0 initial_content w))"
    by (rule rp_rounds_new_calls)
  show ?thesis
  proof (cases out)
    case (Inl cause)
    with g have g': "chat_model (client w) ?msgs = (Inl cause, c')" by simp
    have "rp_rounds chat_model system_prompt (0 # rs) ?h0 initial_content w =
        (Inl (GenerationError cause), \<lparr>client = c', calls = calls w @ [(?msgs, Inl cause)]\<rparr>)"
      by (rule rp_rounds_Inl) (rule g')
    then show ?thesis
      by (simp add: round_messages_def)
  next
    case (Inr response)
    with g have g': "chat_model (client w) ?msgs = (Inr response, c')" by simp
    let ?w1 = "\<lparr>client = c', calls = calls w @ [(?msgs, Inr response)]\<rparr>"
    let ?R = "rp_rounds chat_model system_prompt rs (record_round ?h0 0 response) response ?w1"
    have eq: "rp_rounds chat_model system_prompt (0 # rs) ?h0 initial_content w = ?R"
      by (rule rp_rounds_Inr) (rule g')
    have nc: "new_calls w (snd ?R) = (?msgs, Inr response) # new_calls ?w1 (snd ?R)"
      by (rule rp_rounds_new_calls_Cons) simp
    have r0: "h ''round_0'' = Some response" if "fst ?R = Inr h" for h
    proof -
      have "h ''round_0'' = record_round ?h0 0 response ''round_0''"
        using that by (rule rp_rounds_other) (simp, rule round_0_not_among [OF assms])
      then show ?thesis by (simp add: record_round_def str_int_0)
    qed
    from prefix have A: "calls (snd ?R) = calls w @ new_calls w (snd ?R)"
      by (simp only: eq)
    have B: "new_calls w (snd ?R) \<noteq> []"
      by (simp only: nc) simp
    have "fst (hd (new_calls w (snd ?R))) = ?msgs"
      by (simp only: nc list.sel fst_conv)
    also have "?msgs = [SystemMessage system_prompt, HumanMessage initial_content,
        SystemMessage (get_reflection_prompt 0)]"
      by (simp add: round_messages_def)
    finally have C: "fst (hd (new_calls w (snd ?R))) =
        [SystemMessage system_prompt, HumanMessage initial_content,
         SystemMessage (get_reflection_prompt 0)]" .
    have "snd (hd (new_calls w (snd ?R))) = Inr response"
      by (simp only: nc list.sel snd_conv)
    with r0 have D: "\<forall>h. fst ?R = Inr h \<longrightarrow>
        (\<exists>response. snd (hd (new_calls w (snd ?R))) = Inr response \<and> h ''round_0'' = Some response)"
      by blast
    from A B C D show ?thesis
      unfolding eq by blast
  qed
qed

subsection \<open>The graph formulation starts with a generation call\<close>

text \<open>
  Claim C9: in the graph formulation the node \<open>optimize\<close> is the entry point and the
  predicate is evaluated only after a node has run, so for every \<open>max_rounds\<close>, zero and
  negative values too, a run invokes the client at least once: its first invocation is the
  critique request of round 0 on the initial content, and when the run returns, the
  history holds the answer to that invocation under \<open>round_0\<close>.
\<close>

theorem graph_first_round_is_generated:
  "calls (snd (re_optimize_content chat_model self initial_content system_prompt w)) =
     calls w @ new_calls w (snd (re_optimize_content chat_model self initial_content system_prompt w)) \<and>
   new_calls w (snd (re_optimize_content chat_model self initial_content system_prompt w)) \<noteq> [] \<and>
   fst (hd (new_calls w (snd (re_optimize_content chat_model self initial_content system_prompt w)))) =
     [SystemMessage system_prompt, HumanMessage initial_content,
      SystemMessage (get_reflection_prompt 0)] \<and>
   (\<forall>h. fst (re_optimize_content chat_model self initial_content system_prompt w) = Inr h \<longrightarrow>
      (\<exists>response.
         snd (hd (new_calls w (snd (re_optimize_content chat_model self initial_content system_prompt w)))) =
           Inr response \<and>
         h ''round_0'' = Some response))"
proof -
  let ?h0 = "[''round_0'' \<mapsto> initial_content, ''final_content'' \<mapsto> initial_content]"
  from re_optimize_content_cases [of self chat_model initial_content system_prompt w]
  obtain rs where rs: "set rs \<subseteq> set [1..max_rounds self - 1]"
    and run: "re_optimize_content chat_model self initial_content system_prompt w =
        rp_rounds chat_model system_prompt (0 # rs) ?h0 initial_content w \<or>
      re_optimize_content chat_model self initial_content system_prompt w =
        out_of_steps (rp_rounds chat_model system_prompt (0 # rs) ?h0 initial_content w)"
    by blast
  note X = rounds_from_0 [OF rs, of chat_model system_prompt initial_content w]
  from run show ?thesis
  proof
    assume plain: "re_optimize_content chat_model self initial_content system_prompt w =
        rp_rounds chat_model system_prompt (0 # rs) ?h0 initial_content w"
    show ?thesis unfolding plain by (rule X)
  next
    assume out: "re_optimize_content chat_model self initial_content system_prompt w =
        out_of_steps (rp_rounds chat_model system_prompt (0 # rs) ?h0 initial_content w)"
    from X show ?thesis
      by (simp only: out out_of_steps_snd) (simp add: out_of_steps_not_Inr)
  qed
qed

text \<open>With \<open>max_rounds = 0\<close> and the stub: one invocation, its answer under \<open>round_0\<close>.\<close>

theorem graph_first_round_is_generated_witness:
  "new_calls w0 (snd (re_optimize_content refine_stub \<lparr>max_rounds = 0\<rparr> ''AI in education''
      ''You are a slide-content writer.'' w0)) \<noteq> [] \<and>
   fst (re_optimize_content refine_stub \<lparr>max_rounds = 0\<rparr> ''AI in education''
      ''You are a slide-content writer.'' w0) =
     Inr [''round_0'' \<mapsto> ''AI in education'', ''final_content'' \<mapsto> ''AI in education'',
          ''round_0'' \<mapsto> ''AI in education+refined'', ''final_content'' \<mapsto> ''AI in education+refined''] \<and>
   [''round_0'' \<mapsto> ''AI in education'', ''final_content'' \<mapsto> ''AI in education'',
    ''round_0'' \<mapsto> ''AI in education+refined'', ''final_content'' \<mapsto> ''AI in education+refined'']
     ''round_0'' = Some ''AI in education+refined''"
  using graph_first_round_is_generated [of refine_stub "\<lparr>max_rounds = 0\<rparr>" "''AI in education''"
      "''You are a slide-content writer.''" w0]
  by (simp add: re_optimize_content_rounds eval_simps)

subsection \<open>The messages of a round\<close>

text \<open>
  Claim C7: the message list of each refinement round is exactly the system prompt as a
  system message, the current content as a user message and the critique instruction as a
  system message; the instruction is a fixed template whose only parameter is the round
  number counted from 1, with the four axes and the request to keep the core topic.

  The invocations of a run are exactly those of \<open>critique_rounds\<close>, one for every round
  until one fails: over rounds \<open>1 .. max_rounds - 1\<close> in the sequential formulation, and
  from round 0 in the graph formulation, as far as its steps reach. The instruction of
  round \<open>r\<close> is the text of the source around the decimal rendering of \<open>r + 1\<close>: "This is
  optimisation round \<open>r + 1\<close>, please optimise the content along these directions:",
  the lines "1. depth of content: ...", "2. rich examples: ...", "3. structure: ...",
  "4. expression: ...", a blank line, and "please optimise the content along the
  directions above, keeping the core topic unchanged". Two rounds have the same
  instruction only if they are the same round.
\<close>

theorem critique_messages_sent:
  "new_calls w (snd (rp_optimize_content chat_model self initial_content system_prompt w)) =
     critique_rounds chat_model system_prompt [1..max_rounds self - 1] initial_content (client w) \<and>
   new_calls w (snd (re_optimize_content chat_model self initial_content system_prompt w)) =
     critique_rounds chat_model system_prompt
       (take (recursion_limit - 1) (0 # [1..max_rounds self - 1])) initial_content (client w) \<and>
   get_reflection_prompt r =
     ([CHR 0xE8, CHR 0xBF, CHR 0x99, CHR 0xE6, CHR 0x98, CHR 0xAF,
       CHR 0xE7, CHR 0xAC, CHR 0xAC] @
      '' '') @
     str_int (r + 1) @
     ('' '' @
      [CHR 0xE8, CHR 0xBD, CHR 0xAE, CHR 0xE4, CHR 0xBC, CHR 0x98,
       CHR 0xE5, CHR 0x8C, CHR 0x96, CHR 0xEF, CHR 0xBC, CHR 0x8C,
       CHR 0xE8, CHR 0xAF, CHR 0xB7, CHR 0xE5, CHR 0x9F, CHR 0xBA,
       CHR 0xE4, CHR 0xBA, CHR 0x8E, CHR 0xE4, CHR 0xBB, CHR 0xA5,
       CHR 0xE4, CHR 0xB8, CHR 0x8B, CHR 0xE6, CHR 0x96, CHR 0xB9,
       CHR 0xE5, CHR 0x90, CHR 0x91, CHR 0xE4, CHR 0xBC, CHR 0x98,
       CHR 0xE5, CHR 0x8C, CHR 0x96, CHR 0xE5, CHR 0x86, CHR 0x85,
       CHR 0xE5, CHR 0xAE, CHR 0xB9, CHR 0xEF, CHR 0xBC, CHR 0x9A,
       CHR 0x0A] @
      ''        1. '' @
      [CHR 0xE5, CHR 0x86, CHR 0x85, CHR 0xE5, CHR 0xAE, CHR 0xB9,
       CHR 0xE6, CHR 0xB7, CHR 0xB1, CHR 0xE5, CHR 0xBA, CHR 0xA6,
       CHR 0xEF, CHR 0xBC, CHR 0x9A, CHR 0xE8, CHR 0xA1, CHR 0xA5,
       CHR 0xE5, CHR 0x85, CHR 0x85, CHR 0xE4, CHR 0xB8, CHR 0x93,
       CHR 0xE4, CHR 0xB8, CHR 0x9A, CHR 0xE8, CHR 0xA7, CHR 0x82,
       CHR 0xE7, CHR 0x82, CHR 0xB9, CHR 0xE3, CHR 0x80, CHR 0x81,
       CHR 0xE6, CHR 0x95, CHR 0xB0, CHR 0xE6, CHR 0x8D, CHR 0xAE,
       CHR 0xE6, CHR 0x94, CHR 0xAF, CHR 0xE6, CHR 0x8C, CHR 0x81,
       CHR 0xE5, CHR 0x92, CHR 0x8C, CHR 0xE7, CHR 0xA0, CHR 0x94,
       CHR 0xE7, CHR 0xA9, CHR 0xB6, CHR 0xE5, CHR 0x8F, CHR 0x91,
       CHR 0xE7, CHR 0x8E, CHR 0xB0, CHR 0x0A] @
      ''        2. '' @
      [CHR 0xE6, CHR 0xA1, CHR 0x88, CHR 0xE4, CHR 0xBE, CHR 0x8B,
       CHR 0xE4, CHR 0xB8, CHR 0xB0, CHR 0xE5, CHR 0xAF, CHR 0x8C,
       CHR 0xEF, CHR 0xBC, CHR 0x9A, CHR 0xE5, CHR 0xA2, CHR 0x9E,
       CHR 0xE5, CHR 0x8A, CHR 0xA0, CHR 0xE7, CHR 0x9B, CHR 0xB8,
       CHR 0xE5, CHR 0x85, CHR 0xB3, CHR 0xE6, CHR 0xA1, CHR 0x88,
       CHR 0xE4, CHR 0xBE, CHR 0x8B, CHR 0xE3, CHR 0x80, CHR 0x81,
       CHR 0xE5, CHR 0xAE, CHR 0x9E, CHR 0xE9, CHR 0x99, CHR 0x85,
       CHR 0xE5, CHR 0xBA, CHR 0x94, CHR 0xE7, CHR 0x94, CHR 0xA8,
       CHR 0xE5, CHR 0x9C, CHR 0xBA, CHR 0xE6, CHR 0x99, CHR 0xAF,
       CHR 0x0A] @
      ''        3. '' @
      [CHR 0xE7, CHR 0xBB, CHR 0x93, CHR 0xE6, CHR 0x9E, CHR 0x84,
       CHR 0xE4, CHR 0xBC, CHR 0x98, CHR 0xE5, CHR 0x8C, CHR 0x96,
       CHR 0xEF, CHR 0xBC, CHR 0x9A, CHR 0xE6, CHR 0x94, CHR 0xB9,
       CHR 0xE8, CHR 0xBF, CHR 0x9B, CHR 0xE5, CHR 0x86, CHR 0x85,
       CHR 0xE5, CHR 0xAE, CHR 0xB9, CHR 0xE7, CHR 0xBB, CHR 0x84,
       CHR 0xE7, CHR 0xBB, CHR 0x87, CHR 0xEF, CHR 0xBC, CHR 0x8C,
       CHR 0xE4, CHR 0xBD, CHR 0xBF, CHR 0xE9, CHR 0x80, CHR 0xBB,
       CHR 0xE8, CHR 0xBE, CHR 0x91, CHR 0xE6, CHR 0x9B, CHR 0xB4,
       CHR 0xE6, CHR 0xB8, CHR 0x85, CHR 0xE6, CHR 0x99, CHR 0xB0,
       CHR 0x0A] @
      ''        4. '' @
      [CHR 0xE8, CHR 0xA1, CHR 0xA8, CHR 0xE8, CHR 0xBE, CHR 0xBE,
       CHR 0xE6, CHR 0x8F, CHR 0x90, CHR 0xE5, CHR 0x8D, CHR 0x87,
       CHR 0xEF, CHR 0xBC, CHR 0x9A, CHR 0xE4, CHR 0xBC, CHR 0x98,
       CHR 0xE5, CHR 0x8C, CHR 0x96, CHR 0xE8, CHR 0xAF, CHR 0xAD,
       CHR 0xE8, CHR 0xA8, CHR 0x80, CHR 0xE8, CHR 0xA1, CHR 0xA8,
       CHR 0xE8, CHR 0xBE, CHR 0xBE, CHR 0xEF, CHR 0xBC, CHR 0x8C,
       CHR 0xE4, CHR 0xBD, CHR 0xBF, CHR 0xE5, CHR 0x86, CHR 0x85,
       CHR 0xE5, CHR 0xAE, CHR 0xB9, CHR 0xE6, CHR 0x9B, CHR 0xB4,
       CHR 0xE7, CHR 0x94, CHR 0x9F, CHR 0xE5, CHR 0x8A, CHR 0xA8,
       CHR 0x0A] @
      ''        '' @
      [CHR 0x0A] @
      ''        '' @
      [CHR 0xE8, CHR 0xAF, CHR 0xB7, CHR 0xE5, CHR 0x9F, CHR 0xBA,
       CHR 0xE4, CHR 0xBA, CHR 0x8E, CHR 0xE4, CHR 0xB8, CHR 0x8A,
       CHR 0xE8, CHR 0xBF, CHR 0xB0, CHR 0xE6, CHR 0x96, CHR 0xB9,
       CHR 0xE5, CHR 0x90, CHR 0x91, CHR 0xE5, CHR 0xAF, CHR 0xB9,
       CHR 0xE5, CHR 0x86, CHR 0x85, CHR 0xE5, CHR 0xAE, CHR 0xB9,
       CHR 0xE8, CHR 0xBF, CHR 0x9B, CHR 0xE8, CHR 0xA1, CHR 0x8C,
       CHR 0xE4, CHR 0xBC, CHR 0x98, CHR 0xE5, CHR 0x8C, CHR 0x96,
       CHR 0xEF, CHR 0xBC, CHR 0x8C, CHR 0xE4, CHR 0xBF, CHR 0x9D,
       CHR 0xE6, CHR 0x8C, CHR 0x81, CHR 0xE6, CHR 0xA0, CHR 0xB8,
       CHR 0xE5, CHR 0xBF, CHR 0x83, CHR 0xE4, CHR 0xB8, CHR 0xBB,
       CHR 0xE9, CHR 0xA2, CHR 0x98, CHR 0xE4, CHR 0xB8, CHR 0x8D,
       CHR 0xE5, CHR 0x8F, CHR 0x98, CHR 0xE3, CHR 0x80, CHR 0x82]) \<and>
   (get_reflection_prompt r = get_reflection_prompt r') = (r = r')"
proof -
  have seq: "new_calls w (snd (rp_optimize_content chat_model self initial_content system_prompt w)) =
     critique_rounds chat_model system_prompt [1..max_rounds self - 1] initial_content (client w)"
    by (simp only: rp_optimize_content_rounds rp_rounds_trace)
  have graph: "new_calls w (snd (re_optimize_content chat_model self initial_content system_prompt w)) =
     critique_rounds chat_model system_prompt
       (take (recursion_limit - 1) (0 # [1..max_rounds self - 1])) initial_content (client w)"
  proof (cases "length (0 # [1..max_rounds self - 1]) < recursion_limit - 1")
    case True
    then have "take (recursion_limit - 1) (0 # [1..max_rounds self - 1]) = 0 # [1..max_rounds self - 1]"
      by simp
    with True show ?thesis
      by (simp only: re_optimize_content_rounds if_True rp_rounds_trace)
  next
    case False
    then show ?thesis
      by (simp only: re_optimize_content_rounds if_False out_of_steps_snd rp_rounds_trace)
  qed
  have template: "get_reflection_prompt r =
     ([CHR 0xE8, CHR 0xBF, CHR 0x99, CHR 0xE6, CHR 0x98, CHR 0xAF,
       CHR 0xE7, CHR 0xAC, CHR 0xAC] @
      '' '') @
     str_int (r + 1) @
     ('' '' @
      [CHR 0xE8, CHR 0xBD, CHR 0xAE, CHR 0xE4, CHR 0xBC, CHR 0x98,
       CHR 0xE5, CHR 0x8C, CHR 0x96, CHR 0xEF, CHR 0xBC, CHR 0x8C,
       CHR 0xE8, CHR 0xAF, CHR 0xB7, CHR 0xE5, CHR 0x9F, CHR 0xBA,
       CHR 0xE4, CHR 0xBA, CHR 0x8E, CHR 0xE4, CHR 0xBB, CHR 0xA5,
       CHR 0xE4, CHR 0xB8, CHR 0x8B, CHR 0xE6, CHR 0x96, CHR 0xB9,
       CHR 0xE5, CHR 0x90, CHR 0x91, CHR 0xE4, CHR 0xBC, CHR 0x98,
       CHR 0xE5, CHR 0x8C, CHR 0x96, CHR 0xE5, CHR 0x86, CHR 0x85,
       CHR 0xE5, CHR 0xAE, CHR 0xB9, CHR 0xEF, CHR 0xBC, CHR 0x9A,
       CHR 0x0A] @
      ''        1. '' @
      [CHR 0xE5, CHR 0x86, CHR 0x85, CHR 0xE5, CHR 0xAE, CHR 0xB9,
       CHR 0xE6, CHR 0xB7, CHR 0xB1, CHR 0xE5, CHR 0xBA, CHR 0xA6,
       CHR 0xEF, CHR 0xBC, CHR 0x9A, CHR 0xE8, CHR 0xA1, CHR 0xA5,
       CHR 0xE5, CHR 0x85, CHR 0x85, CHR 0xE4, CHR 0xB8, CHR 0x93,
       CHR 0xE4, CHR 0xB8, CHR 0x9A, CHR 0xE8, CHR 0xA7, CHR 0x82,
       CHR 0xE7, CHR 0x82, CHR 0xB9, CHR 0xE3, CHR 0x80, CHR 0x81,
       CHR 0xE6, CHR 0x95, CHR 0xB0, CHR 0xE6, CHR 0x8D, CHR 0xAE,
       CHR 0xE6, CHR 0x94, CHR 0xAF, CHR 0xE6, CHR 0x8C, CHR 0x81,
       CHR 0xE5, CHR 0x92, CHR 0x8C, CHR 0xE7, CHR 0xA0, CHR 0x94,
       CHR 0xE7, CHR 0xA9, CHR 0xB6, CHR 0xE5, CHR 0x8F, CHR 0x91,
       CHR 0xE7, CHR 0x8E, CHR 0xB0, CHR 0x0A] @
      ''        2. '' @
      [CHR 0xE6, CHR 0xA1, CHR 0x88, CHR 0xE4, CHR 0xBE, CHR 0x8B,
       CHR 0xE4, CHR 0xB8, CHR 0xB0, CHR 0xE5, CHR 0xAF, CHR 0x8C,
       CHR 0xEF, CHR 0xBC, CHR 0x9A, CHR 0xE5, CHR 0xA2, CHR 0x9E,
       CHR 0xE5, CHR 0x8A, CHR 0xA0, CHR 0xE7, CHR 0x9B, CHR 0xB8,
       CHR 0xE5, CHR 0x85, CHR 0xB3, CHR 0xE6, CHR 0xA1, CHR 0x88,
       CHR 0xE4, CHR 0xBE, CHR 0x8B, CHR 0xE3, CHR 0x80, CHR 0x81,
       CHR 0xE5, CHR 0xAE, CHR 0x9E, CHR 0xE9, CHR 0x99, CHR 0x85,
       CHR 0xE5, CHR 0xBA, CHR 0x94, CHR 0xE7, CHR 0x94, CHR 0xA8,
       CHR 0xE5, CHR 0x9C, CHR 0xBA, CHR 0xE6, CHR 0x99, CHR 0xAF,
       CHR 0x0A] @
      ''        3. '' @
      [CHR 0xE7, CHR 0xBB, CHR 0x93, CHR 0xE6, CHR 0x9E, CHR 0x84,
       CHR 0xE4, CHR 0xBC, CHR 0x98, CHR 0xE5, CHR 0x8C, CHR 0x96,
       CHR 0xEF, CHR 0xBC, CHR 0x9A, CHR 0xE6, CHR 0x94, CHR 0xB9,
       CHR 0xE8, CHR 0xBF, CHR 0x9B, CHR 0xE5, CHR 0x86, CHR 0x85,
       CHR 0xE5, CHR 0xAE, CHR 0xB9, CHR 0xE7, CHR 0xBB, CHR 0x84,
       CHR 0xE7, CHR 0xBB, CHR 0x87, CHR 0xEF, CHR 0xBC, CHR 0x8C,
       CHR 0xE4, CHR 0xBD, CHR 0xBF, CHR 0xE9, CHR 0x80, CHR 0xBB,
       CHR 0xE8, CHR 0xBE, CHR 0x91, CHR 0xE6, CHR 0x9B, CHR 0xB4,
       CHR 0xE6, CHR 0xB8, CHR 0x85, CHR 0xE6, CHR 0x99, CHR 0xB0,
       CHR 0x0A] @
      ''        4. '' @
      [CHR 0xE8, CHR 0xA1, CHR 0xA8, CHR 0xE8, CHR 0xBE, CHR 0xBE,
       CHR 0xE6, CHR 0x8F, CHR 0x90, CHR 0xE5, CHR 0x8D, CHR 0x87,
       CHR 0xEF, CHR 0xBC, CHR 0x9A, CHR 0xE4, CHR 0xBC, CHR 0x98,
       CHR 0xE5, CHR 0x8C, CHR 0x96, CHR 0xE8, CHR 0xAF, CHR 0xAD,
       CHR 0xE8, CHR 0xA8, CHR 0x80, CHR 0xE8, CHR 0xA1, CHR 0xA8,
       CHR 0xE8, CHR 0xBE, CHR 0xBE, CHR 0xEF, CHR 0xBC, CHR 0x8C,
       CHR 0xE4, CHR 0xBD, CHR 0xBF, CHR 0xE5, CHR 0x86, CHR 0x85,
       CHR 0xE5, CHR 0xAE, CHR 0xB9, CHR 0xE6, CHR 0x9B, CHR 0xB4,
       CHR 0xE7, CHR 0x94, CHR 0x9F, CHR 0xE5, CHR 0x8A, CHR 0xA8,
       CHR 0x0A] @
      ''        '' @
      [CHR 0x0A] @
      ''        '' @
      [CHR 0xE8, CHR 0xAF, CHR 0xB7, CHR 0xE5, CHR 0x9F, CHR 0xBA,
       CHR 0xE4, CHR 0xBA, CHR 0x8E, CHR 0xE4, CHR 0xB8, CHR 0x8A,
       CHR 0xE8, CHR 0xBF, CHR 0xB0, CHR 0xE6, CHR 0x96, CHR 0xB9,
       CHR 0xE5, CHR 0x90, CHR 0x91, CHR 0xE5, CHR 0xAF, CHR 0xB9,
       CHR 0xE5, CHR 0x86, CHR 0x85, CHR 0xE5, CHR 0xAE, CHR 0xB9,
       CHR 0xE8, CHR 0xBF, CHR 0x9B, CHR 0xE8, CHR 0xA1, CHR 0x8C,
       CHR 0xE4, CHR 0xBC, CHR 0x98, CHR 0xE5, CHR 0x8C, CHR 0x96,
       CHR 0xEF, CHR 0xBC, CHR 0x8C, CHR 0xE4, CHR 0xBF, CHR 0x9D,
       CHR 0xE6, CHR 0x8C, CHR 0x81, CHR 0xE6, CHR 0xA0, CHR 0xB8,
       CHR 0xE5, CHR 0xBF, CHR 0x83, CHR 0xE4, CHR 0xB8, CHR 0xBB,
       CHR 0xE9, CHR 0xA2, CHR 0x98, CHR 0xE4, CHR 0xB8, CHR 0x8D,
       CHR 0xE5, CHR 0x8F, CHR 0x98, CHR 0xE3, CHR 0x80, CHR 0x82])"
    by (simp add: get_reflection_prompt_def prompt_head_def prompt_intro_def axis_depth_def
        axis_examples_def axis_structure_def axis_expression_def keep_topic_def)
  have "(get_reflection_prompt r = get_reflection_prompt r') = (r = r')"
    using get_reflection_prompt_inj by blast
  with seq graph template show ?thesis by (simp only: simp_thms)
qed

subsection \<open>Failure of the generation client\<close>

text \<open>
  Claim C4, as stated: the exception that reaches the caller has the failing round
  attached. It has not: a run whose first invocation fails and a run whose second
  invocation fails, with the same cause, raise the same exception.
\<close>

theorem failing_round_not_in_exception:
  "fst (rp_optimize_content (failing_stub 0) \<lparr>max_rounds = 3\<rparr> ''AI in education''
     ''You are a slide-content writer.'' \<lparr>client = 0, calls = []\<rparr>) =
     Inl (GenerationError ''quota exceeded'') \<and>
   length (calls (snd (rp_optimize_content (failing_stub 0) \<lparr>max_rounds = 3\<rparr> ''AI in education''
     ''You are a slide-content writer.'' \<lparr>client = 0, calls = []\<rparr>))) = 1 \<and>
   fst (rp_optimize_content (failing_stub 1) \<lparr>max_rounds = 3\<rparr> ''AI in education''
     ''You are a slide-content writer.'' \<lparr>client = 0, calls = []\<rparr>) =
     Inl (GenerationError ''quota exceeded'') \<and>
   length (calls (snd (rp_optimize_content (failing_stub 1) \<lparr>max_rounds = 3\<rparr> ''AI in education''
     ''You are a slide-content writer.'' \<lparr>client = 0, calls = []\<rparr>))) = 2"
  by (simp add: rp_optimize_content_def rp_rounds.simps(2) invoke_def failing_stub_def Let_def upto.simps)

text \<open>
  Claim C4, amended: in either formulation, when an invocation of the Generation Client
  fails, \<open>optimize_content\<close> raises the client's exception, with its cause (in the graph
  formulation the library may add a note to it, which names the node; nothing names the
  round); no history is returned; and there is no retry: the failed invocation is the
  last one of the run, and every invocation before it succeeded.
\<close>

theorem generation_failure_aborts_run:
  assumes "optimize_content = rp_optimize_content chat_model self \<or>
           optimize_content = re_optimize_content chat_model self"
    and "optimize_content initial_content system_prompt w = (r, w')"
    and "(msgs, Inl cause) \<in> set (new_calls w w')"
  shows "calls w' = calls w @ new_calls w w' \<and>
    r = Inl (GenerationError cause) \<and>
    last (new_calls w w') = (msgs, Inl cause) \<and>
    list_all (\<lambda>c. \<not> isl (snd c)) (butlast (new_calls w w'))"
proof -
  let ?h0 = "[''round_0'' \<mapsto> initial_content, ''final_content'' \<mapsto> initial_content]"
  have main: "calls (snd X) = calls w @ new_calls w (snd X) \<and>
      fst X = Inl (GenerationError cause) \<and>
      last (new_calls w (snd X)) = (msgs, Inl cause) \<and>
      list_all (\<lambda>c. \<not> isl (snd c)) (butlast (new_calls w (snd X)))"
    if X: "X = rp_rounds chat_model system_prompt rs ?h0 initial_content w"
      and failed: "(msgs, Inl cause) \<in> set (new_calls w (snd X))"
    for X rs
    using rp_rounds_failed_call [of msgs cause w chat_model system_prompt rs ?h0 initial_content]
      rp_rounds_new_calls [of chat_model system_prompt rs ?h0 initial_content w] failed
    unfolding X by blast
  from assms(1) show ?thesis
  proof (cases rule: either_formulation_rounds [where initial_content = initial_content
        and system_prompt = system_prompt and w = w])
    case (Done rs)
    with assms(2) have X: "(r, w') = rp_rounds chat_model system_prompt rs ?h0 initial_content w"
      by simp
    from main [OF X] assms(3) show ?thesis by simp
  next
    case (Out rs)
    let ?X = "rp_rounds chat_model system_prompt rs ?h0 initial_content w"
    from Out(2) assms(2) have o: "out_of_steps ?X = (r, w')" by simp
    then have w': "snd ?X = w'" by (metis out_of_steps_snd snd_conv)
    with assms(3) have "(msgs, Inl cause) \<in> set (new_calls w (snd ?X))" by simp
    from main [OF refl this] have m: "calls (snd ?X) = calls w @ new_calls w (snd ?X)"
      "fst ?X = Inl (GenerationError cause)"
      "last (new_calls w (snd ?X)) = (msgs, Inl cause)"
      "list_all (\<lambda>c. \<not> isl (snd c)) (butlast (new_calls w (snd ?X)))"
      by blast+
    from m(2) have "out_of_steps ?X = (Inl (GenerationError cause), snd ?X)"
      by (cases ?X) simp
    with o have "r = Inl (GenerationError cause)" by simp
    with m w' show ?thesis by simp
  qed
qed

text \<open>The graph formulation with a client whose second invocation fails.\<close>

theorem generation_failure_aborts_run_witness:
  "(re_optimize_content (failing_stub 1) \<lparr>max_rounds = 3\<rparr> =
      rp_optimize_content (failing_stub 1) \<lparr>max_rounds = 3\<rparr> \<or>
    re_optimize_content (failing_stub 1) \<lparr>max_rounds = 3\<rparr> =
      re_optimize_content (failing_stub 1) \<lparr>max_rounds = 3\<rparr>) \<and>
   re_optimize_content (failing_stub 1) \<lparr>max_rounds = 3\<rparr> ''AI in education''
     ''You are a slide-content writer.'' \<lparr>client = 0, calls = []\<rparr> =
     (Inl (GenerationError ''quota exceeded''),
      \<lparr>client = 2,
       calls =
         [(round_messages ''You are a slide-content writer.'' ''AI in education'' 0, Inr ''draft''),
          (round_messages ''You are a slide-content writer.'' ''draft'' 1, Inl ''quota exceeded'')]\<rparr>) \<and>
   (round_messages ''You are a slide-content writer.'' ''draft'' 1, Inl ''quota exceeded'') \<in>
     set (new_calls \<lparr>client = 0 :: nat, calls = []\<rparr>
       \<lparr>client = 2,
        calls =
          [(round_messages ''You are a slide-content writer.'' ''AI in education'' 0, Inr ''draft''),
           (round_messages ''You are a slide-content writer.'' ''draft'' 1, Inl ''quota exceeded'')]\<rparr>) \<and>
   last (new_calls \<lparr>client = 0 :: nat, calls = []\<rparr>
     \<lparr>client = 2,
      calls =
        [(round_messages ''You are a slide-content writer.'' ''AI in education'' 0, Inr ''draft''),
         (round_messages ''You are a slide-content writer.'' ''draft'' 1, Inl ''quota exceeded'')]\<rparr>) =
     (round_messages ''You are a slide-content writer.'' ''draft'' 1, Inl ''quota exceeded'')"
proof -
  let ?w' = "\<lparr>client = 2 :: nat,
       calls =
         [(round_messages ''You are a slide-content writer.'' ''AI in education'' 0, Inr ''draft''),
          (round_messages ''You are a slide-content writer.'' ''draft'' 1, Inl ''quota exceeded'')]\<rparr>"
  have run: "re_optimize_content (failing_stub 1) \<lparr>max_rounds = 3\<rparr> ''AI in education''
     ''You are a slide-content writer.'' \<lparr>client = 0, calls = []\<rparr> =
     (Inl (GenerationError ''quota exceeded''), ?w')"
    by (simp add: re_optimize_content_rounds rp_rounds.simps(2) invoke_def failing_stub_def Let_def
        upto.simps round_messages_def recursion_limit_def)
  have mem: "(round_messages ''You are a slide-content writer.'' ''draft'' 1, Inl ''quota exceeded'') \<in>
     set (new_calls \<lparr>client = 0 :: nat, calls = []\<rparr> ?w')"
    by (simp add: new_calls_def)
  from generation_failure_aborts_run [OF disjI2 [OF refl] run mem] run mem show ?thesis
    by simp
qed

subsection \<open>Empty initial content\<close>

text \<open>
  Claim C6, as stated: an empty \<open>initial_content\<close> raises before any generation call.
  It does not: the sequential run on the empty text returns a history, and its two
  invocations carry the empty text and its refinement.
\<close>

theorem empty_content_is_optimized:
  "fst (rp_optimize_content refine_stub \<lparr>max_rounds = 3\<rparr> [] ''You are a slide-content writer.'' w0) =
     Inr [''round_0'' \<mapsto> [], ''final_content'' \<mapsto> [],
          ''round_1'' \<mapsto> ''+refined'', ''final_content'' \<mapsto> ''+refined'',
          ''round_2'' \<mapsto> ''+refined+refined'', ''final_content'' \<mapsto> ''+refined+refined''] \<and>
   map fst (calls (snd (rp_optimize_content refine_stub \<lparr>max_rounds = 3\<rparr> []
     ''You are a slide-content writer.'' w0))) =
     [round_messages ''You are a slide-content writer.'' [] 1,
      round_messages ''You are a slide-content writer.'' ''+refined'' 2]"
  by (simp add: rp_optimize_content_def eval_simps round_messages_def)

text \<open>
  Claim C6, amended: \<open>optimize_content\<close> does not check its \<open>initial_content\<close>, and an empty
  one raises nothing before the Generation Client is called: in either formulation a run
  on the empty text that raises has invoked the client, and the first invocation of any
  run on it carries the empty text as its user message.
\<close>

theorem empty_content_is_sent_to_client:
  assumes "optimize_content = rp_optimize_content chat_model self \<or>
           optimize_content = re_optimize_content chat_model self"
    and "optimize_content [] system_prompt w = (r, w')"
  shows "(\<forall>e. r = Inl e \<longrightarrow> new_calls w w' \<noteq> []) \<and>
    (new_calls w w' \<noteq> [] \<longrightarrow>
       (\<exists>round_num. fst (hd (new_calls w w')) =
          [SystemMessage system_prompt, HumanMessage [],
           SystemMessage (get_reflection_prompt round_num)]))"
proof -
  let ?h0 = "[''round_0'' \<mapsto> [], ''final_content'' \<mapsto> []]"
  have first: "\<exists>round_num. fst (hd (new_calls w (snd X))) =
          [SystemMessage system_prompt, HumanMessage [],
           SystemMessage (get_reflection_prompt round_num)]"
    if "X = rp_rounds chat_model system_prompt rs ?h0 [] w" "new_calls w (snd X) \<noteq> []" for X rs
    using rp_rounds_first_call [of w chat_model system_prompt rs ?h0 "[]"] that
    by (auto simp: round_messages_def)
  from assms(1) show ?thesis
  proof (cases rule: either_formulation_rounds [where initial_content = "[]"
        and system_prompt = system_prompt and w = w])
    case (Done rs)
    with assms(2) have X: "(r, w') = rp_rounds chat_model system_prompt rs ?h0 [] w"
      by simp
    have "new_calls w w' \<noteq> []" if "r = Inl e" for e
      using rp_rounds_error [of chat_model system_prompt rs ?h0 "[]" w e] that X [symmetric]
      by simp
    moreover from first [OF X] have "new_calls w w' \<noteq> [] \<longrightarrow>
       (\<exists>round_num. fst (hd (new_calls w w')) =
          [SystemMessage system_prompt, HumanMessage [],
           SystemMessage (get_reflection_prompt round_num)])"
      by simp
    ultimately show ?thesis by blast
  next
    case (Out rs)
    let ?X = "rp_rounds chat_model system_prompt rs ?h0 [] w"
    from Out(2) assms(2) have o: "out_of_steps ?X = (r, w')" by simp
    then have w': "snd ?X = w'" by (metis out_of_steps_snd snd_conv)
    have ne: "new_calls w w' \<noteq> []"
    proof (cases "fst ?X")
      case (Inl e)
      from rp_rounds_error [OF this] w' show ?thesis by simp
    next
      case (Inr h)
      from rp_rounds_length [OF this] Out(1) w' show ?thesis by auto
    qed
    moreover from first [OF refl, of rs] ne w' have "\<exists>round_num. fst (hd (new_calls w w')) =
          [SystemMessage system_prompt, HumanMessage [],
           SystemMessage (get_reflection_prompt round_num)]"
      by simp
    ultimately show ?thesis by blast
  qed
qed

text \<open>The sequential formulation on the empty text with a client that fails at once.\<close>

theorem empty_content_is_sent_to_client_witness:
  "(rp_optimize_content (failing_stub 0) \<lparr>max_rounds = 3\<rparr> =
      rp_optimize_content (failing_stub 0) \<lparr>max_rounds = 3\<rparr> \<or>
    rp_optimize_content (failing_stub 0) \<lparr>max_rounds = 3\<rparr> =
      re_optimize_content (failing_stub 0) \<lparr>max_rounds = 3\<rparr>) \<and>
   rp_optimize_content (failing_stub 0) \<lparr>max_rounds = 3\<rparr> [] ''You are a slide-content writer.''
     \<lparr>client = 0, calls = []\<rparr> =
     (Inl (GenerationError ''quota exceeded''),
      \<lparr>client = 1,
       calls = [(round_messages ''You are a slide-content writer.'' [] 1, Inl ''quota exceeded'')]\<rparr>) \<and>
   new_calls \<lparr>client = 0 :: nat, calls = []\<rparr>
     \<lparr>client = 1,
      calls = [(round_messages ''You are a slide-content writer.'' [] 1, Inl ''quota exceeded'')]\<rparr> \<noteq> [] \<and>
   (\<exists>round_num. fst (hd (new_calls \<lparr>client = 0 :: nat, calls = []\<rparr>
     \<lparr>client = 1,
      calls = [(round_messages ''You are a slide-content writer.'' [] 1, Inl ''quota exceeded'')]\<rparr>)) =
     [SystemMessage ''You are a slide-content writer.'', HumanMessage [],
      SystemMessage (get_reflection_prompt round_num)])"
proof -
  have run: "rp_optimize_content (failing_stub 0) \<lparr>max_rounds = 3\<rparr> [] ''You are a slide-content writer.''
     \<lparr>client = 0, calls = []\<rparr> =
     (Inl (GenerationError ''quota exceeded''),
      \<lparr>client = 1,
       calls = [(round_messages ''You are a slide-content writer.'' [] 1, Inl ''quota exceeded'')]\<rparr>)"
    by (simp add: rp_optimize_content_def rp_rounds.simps(2) invoke_def failing_stub_def Let_def
        upto.simps round_messages_def)
  from empty_content_is_sent_to_client [OF disjI1 [OF refl] run] run show ?thesis
    by (simp add: new_calls_def)
qed

subsection \<open>The chat orchestrator and the text handler\<close>

text \<open>
  Claim C8: \<open>chat_with_history\<close> applies \<open>optimize_content\<close> (of the graph engine) to the
  user's text with the loaded system prompt and returns the \<open>final_content\<close> entry of the
  result, which is always present; an exception of the run is raised as it is. A
  \<open>ChatBot\<close> built with no session id has the session id \<open>default_session_id\<close>, and its
  prompt is what \<open>load_prompt\<close> read, whatever the template library accepts.
\<close>

theorem chat_with_history_returns_final_content:
  "(\<forall>h w'. re_optimize_content chat_model (reflection_engine self) text' (prompt self) w = (Inr h, w') \<longrightarrow>
      (\<exists>reply. h ''final_content'' = Some reply \<and>
         chat_with_history chat_model self text' w = (Inr reply, w'))) \<and>
   (\<forall>e w'. re_optimize_content chat_model (reflection_engine self) text' (prompt self) w = (Inl e, w') \<longrightarrow>
      chat_with_history chat_model self text' w = (Inl e, w')) \<and>
   (\<forall>bot. ChatBot_init template_error environ files prompt_file_arg None = Inr bot \<longrightarrow>
      session_id bot = ''default_session_id'' \<and>
      load_prompt files (prompt_file bot) = Inr (prompt bot))"
proof -
  have A: "\<exists>reply. h ''final_content'' = Some reply \<and>
         chat_with_history chat_model self text' w = (Inr reply, w')"
    if run: "re_optimize_content chat_model (reflection_engine self) text' (prompt self) w = (Inr h, w')"
    for h w'
  proof -
    from run have "h ''final_content'' \<noteq> None"
      using re_optimize_content_final [of chat_model "reflection_engine self" text' "prompt self" w h]
      by simp
    then obtain reply where "h ''final_content'' = Some reply" by blast
    with run show ?thesis by (simp add: chat_with_history_def dict_getitem_def)
  qed
  have B: "chat_with_history chat_model self text' w = (Inl e, w')"
    if "re_optimize_content chat_model (reflection_engine self) text' (prompt self) w = (Inl e, w')"
    for e w'
    using that by (simp add: chat_with_history_def)
  have C: "session_id bot = ''default_session_id'' \<and>
      load_prompt files (prompt_file bot) = Inr (prompt bot)"
    if "ChatBot_init template_error environ files prompt_file_arg None = Inr bot" for bot
    using that
    by (auto simp: ChatBot_init_def Let_def split: if_splits sum.splits option.splits)
  from A B C show ?thesis by blast
qed

text \<open>A bot built from a key and a prompt file, on the scenario of the specification.\<close>

theorem chat_with_history_returns_final_content_witness:
  "re_optimize_content refine_stub (reflection_engine
      \<lparr>prompt_file = ''./prompts/chatbot.txt'', session_id = ''default_session_id'',
       prompt = ''You are a slide-content writer.'', reflection_engine = \<lparr>max_rounds = 3\<rparr>\<rparr>)
      ''AI in education''
      (prompt \<lparr>prompt_file = ''./prompts/chatbot.txt'', session_id = ''default_session_id'',
       prompt = ''You are a slide-content writer.'', reflection_engine = \<lparr>max_rounds = 3\<rparr>\<rparr>) w0 =
     (Inr [''round_0'' \<mapsto> ''AI in education'', ''final_content'' \<mapsto> ''AI in education'',
           ''round_0'' \<mapsto> ''AI in education+refined'',
           ''final_content'' \<mapsto> ''AI in education+refined'',
           ''round_1'' \<mapsto> ''AI in education+refined+refined'',
           ''final_content'' \<mapsto> ''AI in education+refined+refined'',
           ''round_2'' \<mapsto> ''AI in education+refined+refined+refined'',
           ''final_content'' \<mapsto> ''AI in education+refined+refined+refined''],
      snd (re_optimize_content refine_stub \<lparr>max_rounds = 3\<rparr> ''AI in education''
        ''You are a slide-content writer.'' w0)) \<and>
   fst (chat_with_history refine_stub
      \<lparr>prompt_file = ''./prompts/chatbot.txt'', session_id = ''default_session_id'',
       prompt = ''You are a slide-content writer.'', reflection_engine = \<lparr>max_rounds = 3\<rparr>\<rparr>
      ''AI in education'' w0) = Inr ''AI in education+refined+refined+refined'' \<and>
   ChatBot_init brace_free [''OPENAI_API_KEY'' \<mapsto> ''sk-test'']
      [''./prompts/chatbot.txt'' \<mapsto> ''  You are a slide-content writer.  '']
      None None =
     Inr \<lparr>prompt_file = ''./prompts/chatbot.txt'', session_id = ''default_session_id'',
          prompt = ''You are a slide-content writer.'', reflection_engine = \<lparr>max_rounds = 3\<rparr>\<rparr> \<and>
   session_id \<lparr>prompt_file = ''./prompts/chatbot.txt'', session_id = ''default_session_id'',
          prompt = ''You are a slide-content writer.'', reflection_engine = \<lparr>max_rounds = 3\<rparr>\<rparr> =
     ''default_session_id''"
proof -
  let ?bot = "\<lparr>prompt_file = ''./prompts/chatbot.txt'', session_id = ''default_session_id'',
       prompt = ''You are a slide-content writer.'', reflection_engine = \<lparr>max_rounds = 3\<rparr>\<rparr>"
  let ?h = "[''round_0'' \<mapsto> ''AI in education'', ''final_content'' \<mapsto> ''AI in education'',
           ''round_0'' \<mapsto> ''AI in education+refined'',
           ''final_content'' \<mapsto> ''AI in education+refined'',
           ''round_1'' \<mapsto> ''AI in education+refined+refined'',
           ''final_content'' \<mapsto> ''AI in education+refined+refined'',
           ''round_2'' \<mapsto> ''AI in education+refined+refined+refined'',
           ''final_content'' \<mapsto> ''AI in education+refined+refined+refined'']"
  let ?w' = "snd (re_optimize_content refine_stub \<lparr>max_rounds = 3\<rparr> ''AI in education''
        ''You are a slide-content writer.'' w0)"
  have "fst (re_optimize_content refine_stub \<lparr>max_rounds = 3\<rparr> ''AI in education''
        ''You are a slide-content writer.'' w0) = Inr ?h"
    by (simp add: re_optimize_content_rounds eval_simps)
  then have run: "re_optimize_content refine_stub (reflection_engine ?bot) ''AI in education''
      (prompt ?bot) w0 = (Inr ?h, ?w')"
    by (simp add: prod_eq_iff)
  have init: "ChatBot_init brace_free [''OPENAI_API_KEY'' \<mapsto> ''sk-test'']
      [''./prompts/chatbot.txt'' \<mapsto> ''  You are a slide-content writer.  '']
      None None = Inr ?bot"
    by (simp add: ChatBot_init_def load_prompt_def py_strip_def is_space_def py_whitespace_def
        is_continuation_def ReflectionEngine_init_def create_chatbot_def brace_free_def Let_def)
  note T = chat_with_history_returns_final_content
    [of refine_stub ?bot "''AI in education''" w0 brace_free "[''OPENAI_API_KEY'' \<mapsto> ''sk-test'']"
      "[''./prompts/chatbot.txt'' \<mapsto> ''  You are a slide-content writer.  '']" None]
  from T run have "\<exists>reply. ?h ''final_content'' = Some reply \<and>
      chat_with_history refine_stub ?bot ''AI in education'' w0 = (Inr reply, ?w')"
    by blast
  then have reply: "fst (chat_with_history refine_stub ?bot ''AI in education'' w0) =
      Inr ''AI in education+refined+refined+refined''"
    by auto
  from T init have "session_id ?bot = ''default_session_id''"
    by blast
  with run reply init show ?thesis
    by (simp only: simp_thms)
qed

text \<open>
  Claim C10: \<open>chat_with_history\<close> returns a \<open>str\<close> and \<open>generate_contents\<close> reads
  \<open>messages[1]["content"]\<close> on it; for every non-empty text that access raises
  (\<open>IndexError\<close> on a reply shorter than two characters, \<open>TypeError\<close> otherwise), the
  handler turns it into the retry error, and so does it with an exception of
  \<open>chat_with_history\<close>: the text path never returns a reply.
\<close>

theorem generate_contents_never_replies:
  assumes "text' \<noteq> []"
    and "message' = MessageStr text' \<or> (message' = MessageDict d \<and> d ''text'' = Some text')"
  shows "fst (generate_contents chat_model chat_agent message' history' w) =
      Inl (GrError retry_message) \<and>
    (\<forall>reply w'. chat_with_history chat_model chat_agent text' w = (Inr reply, w') \<longrightarrow>
       str_getitem reply 1 = Inl IndexError \<or>
       (\<exists>item. str_getitem reply 1 = Inr item \<and> str_getitem_key item ''content'' = Inl TypeError))"
proof -
  have access: "str_getitem reply 1 = Inl IndexError \<or>
       (\<exists>item. str_getitem reply 1 = Inr item \<and> str_getitem_key item ''content'' = Inl TypeError)"
    for reply
    by (simp add: str_getitem_def list_getitem_def str_getitem_key_def)
  from assms have tx: "(case message' of
               MessageStr s \<Rightarrow> s
             | MessageDict d \<Rightarrow> (case d ''text'' of None \<Rightarrow> [] | Some t \<Rightarrow> t)) = text'"
    by auto
  obtain r w' where run: "chat_with_history chat_model chat_agent text' w = (r, w')"
    by (cases "chat_with_history chat_model chat_agent text' w")
  have "fst (generate_contents chat_model chat_agent message' history' w) =
      Inl (GrError retry_message)"
  proof (cases r)
    case (Inl e)
    with run have "generate_contents_except e = GrError retry_message"
      using chat_with_history_error [of chat_model chat_agent text' w e] by simp
    with run Inl tx assms(1) show ?thesis
      by (simp add: generate_contents_def Let_def)
  next
    case (Inr reply)
    from access [of reply] run Inr tx assms(1) show ?thesis
      by (auto simp: generate_contents_def Let_def str_getitem_key_def)
  qed
  with access show ?thesis by blast
qed

text \<open>The scenario of the specification, typed into the text box.\<close>

theorem generate_contents_never_replies_witness:
  "''AI in education'' \<noteq> [] \<and>
   (MessageStr ''AI in education'' = MessageStr ''AI in education'' \<or>
    (MessageStr ''AI in education'' = MessageDict Map.empty \<and>
     Map.empty ''text'' = Some ''AI in education'')) \<and>
   fst (generate_contents refine_stub
      \<lparr>prompt_file = ''./prompts/chatbot.txt'', session_id = ''default_session_id'',
       prompt = ''You are a slide-content writer.'', reflection_engine = \<lparr>max_rounds = 3\<rparr>\<rparr>
      (MessageStr ''AI in education'') [] w0) = Inl (GrError retry_message)"
  using generate_contents_never_replies [of "''AI in education''" "MessageStr ''AI in education''"
      Map.empty refine_stub
      "\<lparr>prompt_file = ''./prompts/chatbot.txt'', session_id = ''default_session_id'',
       prompt = ''You are a slide-content writer.'', reflection_engine = \<lparr>max_rounds = 3\<rparr>\<rparr>" "[]" w0]
  by simp

end
